theory Spec2Isabelle
  imports Complex_Main "HOL-Library.Sublist" "HOL-Library.Code_Target_Nat"
begin

section \<open>Text as sequences of Unicode code points\<close>

text \<open>
  A Python \<open>str\<close> is a sequence of Unicode code points and \<open>len\<close> counts code points,
  so a text is a list of natural numbers (the code points); Hebrew starts at U+0590.
  ASCII literals of the source are written through \<open>ascii\<close>.
\<close>

type_synonym ustr = "nat list"

definition ascii :: "string \<Rightarrow> ustr" where
  "ascii s = map of_char s"

text \<open>
  \<open>str.isspace\<close>, \<open>str.strip()\<close> and the regular-expression class \<open>\s\<close> share one
  set of code points (CPython's Unicode whitespace).
\<close>

definition is_space :: "nat \<Rightarrow> bool" where
  "is_space c \<longleftrightarrow>
     (9 \<le> c \<and> c \<le> 13) \<or> (28 \<le> c \<and> c \<le> 32) \<or> c = 133 \<or> c = 160 \<or> c = 5760 \<or>
     (8192 \<le> c \<and> c \<le> 8202) \<or> c = 8232 \<or> c = 8233 \<or> c = 8239 \<or> c = 8287 \<or> c = 12288"

definition strip :: "ustr \<Rightarrow> ustr" where
  "strip s = rev (dropWhile is_space (rev (dropWhile is_space s)))"

text \<open>\<open>re.sub(r'\s+', ' ', text)\<close>: every maximal run of whitespace becomes one space.\<close>

fun collapse_ws :: "ustr \<Rightarrow> ustr" where
  "collapse_ws [] = []"
| "collapse_ws [c] = (if is_space c then [32] else [c])"
| "collapse_ws (c # d # cs) =
     (if is_space c then (if is_space d then collapse_ws (d # cs) else 32 # collapse_ws (d # cs))
      else c # collapse_ws (d # cs))"

text \<open>
  \<open>text.replace(old, new)\<close>: the occurrences of \<open>old\<close> are replaced from left to right,
  without overlap. The counter says how many characters of a replaced occurrence are
  still to be skipped.
\<close>

fun replace_go :: "ustr \<Rightarrow> ustr \<Rightarrow> nat \<Rightarrow> ustr \<Rightarrow> ustr" where
  "replace_go old new k [] = []"
| "replace_go old new k (c # cs) =
     (if 0 < k then replace_go old new (k - 1) cs
      else if prefix old (c # cs) then new @ replace_go old new (length old - 1) cs
      else c # replace_go old new 0 cs)"

definition replace :: "ustr \<Rightarrow> ustr \<Rightarrow> ustr \<Rightarrow> ustr" where
  "replace old new text = replace_go old new 0 text"

text \<open>\<open>text.split(sep)\<close> for a non-empty separator, and \<open>sep.join(parts)\<close>.\<close>

fun split_go :: "ustr \<Rightarrow> nat \<Rightarrow> ustr \<Rightarrow> ustr \<Rightarrow> ustr list" where
  "split_go sep k acc [] = [rev acc]"
| "split_go sep k acc (c # cs) =
     (if 0 < k then split_go sep (k - 1) acc cs
      else if prefix sep (c # cs) then rev acc # split_go sep (length sep - 1) [] cs
      else split_go sep 0 (c # acc) cs)"

definition split :: "ustr \<Rightarrow> ustr \<Rightarrow> ustr list" where
  "split sep text = split_go sep 0 [] text"

fun join :: "ustr \<Rightarrow> ustr list \<Rightarrow> ustr" where
  "join sep [] = []"
| "join sep [x] = x"
| "join sep (x # y # ys) = x @ sep @ join sep (y # ys)"

text \<open>\<open>needle in text\<close>: the substring test.\<close>

fun contains :: "ustr \<Rightarrow> ustr \<Rightarrow> bool" where
  "contains needle [] = (needle = [])"
| "contains needle (c # cs) = (prefix needle (c # cs) \<or> contains needle cs)"

text \<open>\<open>str(n)\<close> for a length: the decimal digits.\<close>

function str_of_nat :: "nat \<Rightarrow> ustr" where
  "str_of_nat n = (if n < 10 then [48 + n] else str_of_nat (n div 10) @ [48 + n mod 10])"
  by pat_completeness auto
termination
  by (relation "measure (\<lambda>n. n)") auto

declare str_of_nat.simps [simp del]

text \<open>
  \<open>[text[i:i + n] for i in range(0, len(text), n)]\<close>; \<open>range\<close> raises ValueError when
  the step is zero.
\<close>

datatype py_error = ValueError

function slices :: "nat \<Rightarrow> ustr \<Rightarrow> ustr list" where
  "slices n text = (if n = 0 \<or> text = [] then [] else take n text # slices n (drop n text))"
  by pat_completeness auto
termination
  by (relation "measure (\<lambda>(n, text). length text)") auto

declare slices.simps [simp del]

definition fixed_width :: "nat \<Rightarrow> ustr \<Rightarrow> py_error + ustr list" where
  "fixed_width n text = (if n = 0 then Inl ValueError else Inr (slices n text))"

definition newline2 :: ustr where
  "newline2 = [10, 10]"


section \<open>The document-analysis endpoint (api/analysis.py)\<close>

text \<open>
  \<open>analyze_document\<close> runs inside one \<open>try\<close> block whose handler is
  \<open>except Exception\<close>. FastAPI's \<open>HTTPException\<close> is a subclass of \<open>Exception\<close>, so the
  handler also receives the exception the body raises itself. The two collaborators are
  given by their outcomes: \<open>extract_text\<close> raises or returns an optional text,
  \<open>analyze\<close> raises or returns a dictionary, of which the response keeps the numbers of
  questions and topics.
\<close>

datatype exn = HTTPException nat | OtherException

record analysis_response =
  status :: ustr
  questions_found :: nat
  topics_identified :: nat

definition analyze_document_try ::
  "(exn + ustr option) \<Rightarrow> (ustr \<Rightarrow> exn + nat \<times> nat) \<Rightarrow> exn + analysis_response" where
  "analyze_document_try extracted analyze =
     (case extracted of
        Inl e \<Rightarrow> Inl e
      | Inr None \<Rightarrow> Inl (HTTPException 400)
      | Inr (Some text) \<Rightarrow>
          if text = [] then Inl (HTTPException 400)
          else (case analyze text of
                  Inl e \<Rightarrow> Inl e
                | Inr (nq, nt) \<Rightarrow>
                    Inr \<lparr>status = ascii ''completed'', questions_found = nq,
                         topics_identified = nt\<rparr>))"

definition analyze_document ::
  "(exn + ustr option) \<Rightarrow> (ustr \<Rightarrow> exn + nat \<times> nat) \<Rightarrow> exn + analysis_response" where
  "analyze_document extracted analyze =
     (case analyze_document_try extracted analyze of
        Inl e \<Rightarrow> Inl (HTTPException 500)
      | Inr response \<Rightarrow> Inr response)"


section \<open>The Hebrew translator (services/hebrew\_translator.py)\<close>

definition max_chunk_size :: nat where
  "max_chunk_size = 3000"

definition in_range :: "nat \<Rightarrow> nat \<Rightarrow> nat \<Rightarrow> bool" where
  "in_range lo hi c \<longleftrightarrow> lo \<le> c \<and> c \<le> hi"

definition hebrew_pattern :: "nat \<Rightarrow> bool" where
  "hebrew_pattern c \<longleftrightarrow>
     in_range 0x0590 0x05FF c \<or> in_range 0x0600 0x06FF c \<or> in_range 0x0750 0x077F c \<or>
     in_range 0x08A0 0x08FF c \<or> in_range 0xFB1D 0xFB4F c"

definition is_hebrew_text :: "ustr \<Rightarrow> bool" where
  "is_hebrew_text text = list_ex hebrew_pattern text"

definition hebrew_patterns :: "(nat \<Rightarrow> bool) list" where
  "hebrew_patterns =
     [in_range 0x0590 0x05FF, in_range 0x0600 0x06FF, in_range 0xFB1D 0xFB4F,
      (\<lambda>c. c = 0x200F \<or> c = 0x202E)]"

definition contains_hebrew_characters :: "ustr \<Rightarrow> bool" where
  "contains_hebrew_characters text = list_ex (\<lambda>pattern. list_ex pattern text) hebrew_patterns"

definition patterns_to_remove :: "(nat \<Rightarrow> bool) list" where
  "patterns_to_remove =
     [in_range 0x0590 0x05FF, in_range 0x0600 0x06FF, in_range 0xFB1D 0xFB4F,
      (\<lambda>c. c = 0x200F \<or> c = 0x202E), in_range 0x2000 0x206F]"

text \<open>
  The test \<open>len(text) < len(original_text) * 0.3\<close> multiplies by the double nearest to
  0.3. The rounded product differs from \<open>3 * len(original_text) / 10\<close> by far less than
  one tenth and is not above it when it is an integer, so an integer is below the one
  exactly when it is below the other: the test is the integer comparison
  \<open>10 * len(text) < 3 * len(original_text)\<close>.
\<close>

definition force_remove_hebrew :: "ustr \<Rightarrow> ustr" where
  "force_remove_hebrew original_text =
     (let text = fold (\<lambda>pattern t. filter (\<lambda>c. \<not> pattern c) t) patterns_to_remove original_text;
          text = strip (collapse_ws text)
      in if 10 * length text < 3 * length original_text
         then ascii ''[TRANSLATION_CLEANED: '' @ str_of_nat (length original_text) @
              ascii '' chars -> '' @ str_of_nat (length text) @ ascii '' chars] '' @ text
         else text)"

definition sentence_endings :: "nat list" where
  "sentence_endings = [46, 33, 63, 0x3002, 0xFF01, 0xFF1F]"

fun split_by_sentences_go :: "ustr \<Rightarrow> ustr \<Rightarrow> ustr list" where
  "split_by_sentences_go current [] = (if strip current \<noteq> [] then [strip current] else [])"
| "split_by_sentences_go current (c # cs) =
     (if c \<in> set sentence_endings
      then strip (current @ [c]) # split_by_sentences_go [] cs
      else split_by_sentences_go (current @ [c]) cs)"

definition split_by_sentences :: "ustr \<Rightarrow> ustr list" where
  "split_by_sentences text = split_by_sentences_go [] text"

text \<open>
  The two loops of \<open>_chunk_hebrew_text\<close> carry the list of finished chunks and the chunk
  being built.
\<close>

definition sentence_step :: "nat \<Rightarrow> ustr list \<times> ustr \<Rightarrow> ustr \<Rightarrow> ustr list \<times> ustr" where
  "sentence_step n st sentence =
     (case st of (chunks, temp_chunk) \<Rightarrow>
        if length temp_chunk + length sentence + 1 > n
        then ((if temp_chunk \<noteq> [] then chunks @ [strip temp_chunk] else chunks), sentence)
        else (chunks, (if temp_chunk \<noteq> [] then temp_chunk @ [32] @ sentence else sentence)))"

definition paragraph_step :: "nat \<Rightarrow> ustr list \<times> ustr \<Rightarrow> ustr \<Rightarrow> ustr list \<times> ustr" where
  "paragraph_step n st paragraph =
     (case st of (chunks, current_chunk) \<Rightarrow>
        if length current_chunk + length paragraph + 2 > n
        then (let chunks1 = (if current_chunk \<noteq> [] then chunks @ [strip current_chunk]
                             else chunks)
              in if length paragraph > n
                 then foldl (sentence_step n) (chunks1, []) (split_by_sentences paragraph)
                 else (chunks1, paragraph))
        else (chunks, (if current_chunk \<noteq> [] then current_chunk @ newline2 @ paragraph
                       else paragraph)))"

definition chunk_hebrew_text :: "nat \<Rightarrow> ustr \<Rightarrow> py_error + ustr list" where
  "chunk_hebrew_text n text =
     (if length text \<le> n then Inr [text]
      else (case foldl (paragraph_step n) ([], []) (split newline2 text) of
              (chunks0, current_chunk) \<Rightarrow>
                let chunks = (if current_chunk \<noteq> [] then chunks0 @ [strip current_chunk]
                              else chunks0)
                in if length chunks = 1 \<and> length text > n then fixed_width n text
                   else Inr chunks))"

text \<open>
  \<open>_sanitize_llm_response\<close>. The allowed pattern is the character class
  \<open>[A-Za-z0-9.,!?;:()'"\-\s\n]\<close>, compiled without flags.
\<close>

definition artifacts_to_remove :: "ustr list" where
  "artifacts_to_remove =
     [ascii ''Translation:'', ascii ''English translation:'', ascii ''Output:'',
      ascii ''Result:'', ascii ''Here is the translation:'', ascii ''The translation is:'']"

definition allowed_pattern :: "nat \<Rightarrow> bool" where
  "allowed_pattern c \<longleftrightarrow>
     in_range 65 90 c \<or> in_range 97 122 c \<or> in_range 48 57 c \<or>
     c \<in> set (ascii ''.,!?;:()'') \<or> c = 39 \<or> c = 34 \<or> c = 45 \<or> is_space c \<or> c = 10"

definition sanitize_llm_response :: "ustr \<Rightarrow> ustr" where
  "sanitize_llm_response raw_response =
     (if raw_response = [] then ascii ''[EMPTY_RESPONSE]''
      else let text = strip raw_response;
               text = fold (\<lambda>artifact t. strip (replace artifact [] t)) artifacts_to_remove text;
               text = filter allowed_pattern text;
               text = strip (collapse_ws text)
           in if text \<noteq> [] then text else ascii ''[SANITIZATION_FAILED]'')"

text \<open>The two fixed strings the sanitizer returns when nothing is left to return.\<close>

definition sanitizer_sentinels :: "ustr set" where
  "sanitizer_sentinels = {ascii ''[EMPTY_RESPONSE]'', ascii ''[SANITIZATION_FAILED]''}"

definition emergency_hebrew_purge :: "ustr \<Rightarrow> ustr" where
  "emergency_hebrew_purge text =
     (let ascii_only = filter (\<lambda>c. c < 128) text;
          ascii_only = strip (collapse_ws ascii_only)
      in if ascii_only \<noteq> [] then ascii_only else ascii ''[ASCII_PURGE_RESULT_EMPTY]'')"

text \<open>
  One upstream call either raises or returns a message whose content is a text or
  \<open>None\<close>. The upstream model is a parameter: the reply to the call for chunk \<open>i\<close> at
  attempt \<open>a\<close>. Every call of one run has its own pair \<open>(i, a)\<close>, so such a function
  describes any behaviour of the upstream service. \<open>_translate_chunk\<close> returns its result
  together with the number of calls it issued.
\<close>

datatype llm_reply = ApiError | Reply "ustr option"

definition max_retries :: nat where
  "max_retries = 5"

fun translate_attempts :: "(nat \<Rightarrow> llm_reply) \<Rightarrow> nat \<Rightarrow> nat list \<Rightarrow> ustr option \<times> nat" where
  "translate_attempts reply chunk_index [] = (None, 0)"
| "translate_attempts reply chunk_index (attempt # rest) =
     (case
        (case reply attempt of
           ApiError \<Rightarrow>
             if attempt < max_retries - 1 then translate_attempts reply chunk_index rest
             else (Some (ascii ''[TRANSLATION_ERROR_CHUNK_'' @ str_of_nat (chunk_index + 1) @
                         ascii '']''), 0)
         | Reply content \<Rightarrow>
             let translation =
                   sanitize_llm_response (case content of None \<Rightarrow> [] | Some raw \<Rightarrow> raw)
             in if contains_hebrew_characters translation
                then (if attempt = max_retries - 1
                      then (Some (force_remove_hebrew translation), 0)
                      else translate_attempts reply chunk_index rest)
                else if translation \<noteq> [] \<and> length translation > 10
                then (Some translation, 0)
                else if attempt = max_retries - 1
                then (Some (ascii ''[TRANSLATION_FAILED_FOR_CHUNK_'' @
                            str_of_nat (chunk_index + 1) @ ascii '']''), 0)
                else translate_attempts reply chunk_index rest)
      of (result, calls) \<Rightarrow> (result, Suc calls))"

definition translate_chunk :: "(nat \<Rightarrow> nat \<Rightarrow> llm_reply) \<Rightarrow> nat \<Rightarrow> ustr option \<times> nat" where
  "translate_chunk llm chunk_index =
     translate_attempts (llm chunk_index) chunk_index [0..<max_retries]"

text \<open>
  The final validation loop of \<open>translate_hebrew_to_english\<close>. \<open>unicodedata.normalize\<close>
  is a parameter (\<open>nfkc\<close>); the loop runs at most three times and returns whether the
  validation passed together with the text.
\<close>

definition allowed_chars :: "nat set" where
  "allowed_chars =
     set (ascii ''ABCDEFGHIJKLMNOPQRSTUVWXYZabcdefghijklmnopqrstuvwxyz0123456789.,!?;:()'') \<union>
     {34, 39, 45, 10, 32}"

fun validation_loop :: "(ustr \<Rightarrow> ustr) \<Rightarrow> nat \<Rightarrow> ustr \<Rightarrow> bool \<times> ustr" where
  "validation_loop nfkc 0 final_translation = (False, final_translation)"
| "validation_loop nfkc (Suc attempts_left) final_translation =
     (if contains_hebrew_characters final_translation
      then validation_loop nfkc attempts_left (force_remove_hebrew final_translation)
      else if filter (\<lambda>c. c \<notin> allowed_chars) final_translation \<noteq> []
      then validation_loop nfkc attempts_left
             (strip (collapse_ws (filter (\<lambda>c. c \<in> allowed_chars) final_translation)))
      else if nfkc final_translation \<noteq> final_translation
      then validation_loop nfkc attempts_left (nfkc final_translation)
      else (True, final_translation))"

text \<open>
  The whole final validation: the loop, then the emergency fallback when the loop has
  not passed.
\<close>

definition final_validation :: "(ustr \<Rightarrow> ustr) \<Rightarrow> ustr \<Rightarrow> ustr" where
  "final_validation nfkc final_translation =
     (case validation_loop nfkc 3 final_translation of
        (validation_passed, final_translation) \<Rightarrow>
          if \<not> validation_passed
          then (let purged = emergency_hebrew_purge final_translation
                in if \<not> list_all (\<lambda>c. c < 128) purged
                   then ascii ''[CATASTROPHIC_TRANSLATION_FAILURE - HEBREW_REMOVAL_IMPOSSIBLE]''
                   else purged)
          else final_translation)"

record translation_result =
  translated_text :: ustr
  original_chunks :: nat
  translated_chunks :: "nat option"
  success :: bool
  has_hebrew :: bool
  hebrew_free_guaranteed :: "bool option"
  message :: "ustr option"
  error :: "ustr option"

definition translate_hebrew_to_english ::
  "(ustr \<Rightarrow> ustr) \<Rightarrow> (nat \<Rightarrow> nat \<Rightarrow> llm_reply) \<Rightarrow> ustr \<Rightarrow> translation_result \<times> nat" where
  "translate_hebrew_to_english nfkc llm text =
     (if \<not> is_hebrew_text text
      then (\<lparr>translated_text = text, original_chunks = 1, translated_chunks = None,
              success = True, has_hebrew = False, hebrew_free_guaranteed = None,
              message = Some (ascii ''No Hebrew text detected in input''), error = None\<rparr>, 0)
      else (case chunk_hebrew_text max_chunk_size text of
              Inl e \<Rightarrow>
                (\<lparr>translated_text = text, original_chunks = 0, translated_chunks = None,
                   success = False, has_hebrew = is_hebrew_text text,
                   hebrew_free_guaranteed = None, message = None,
                   error = Some (ascii ''range() arg 3 must not be zero'')\<rparr>, 0)
            | Inr chunks \<Rightarrow>
                let translated = map (translate_chunk llm) [0..<length chunks];
                    calls = sum_list (map snd translated);
                    successful_translations = List.map_filter fst translated
                in if successful_translations = []
                   then (\<lparr>translated_text = text, original_chunks = length chunks,
                           translated_chunks = None, success = False, has_hebrew = True,
                           hebrew_free_guaranteed = None, message = None,
                           error = Some (ascii ''Translation failed for all chunks'')\<rparr>, calls)
                   else let final_translation =
                              final_validation nfkc
                                (if length chunks = 1 then hd successful_translations
                                 else join newline2 successful_translations)
                        in (\<lparr>translated_text = final_translation,
                              original_chunks = length chunks,
                              translated_chunks = Some (length successful_translations),
                              success = True, has_hebrew = False,
                              hebrew_free_guaranteed = Some True,
                              message = Some (ascii ''Successfully translated '' @
                                  str_of_nat (length successful_translations) @ [47] @
                                  str_of_nat (length chunks) @
                                  ascii '' chunks - NO HEBREW REMAINING''),
                              error = None\<rparr>, calls)))"


section \<open>Regular expressions of the \<open>re\<close> module\<close>

text \<open>
  The patterns of the source use a small part of the regular-expression language:
  character classes, repetition of a single character class (greedy \<open>*\<close>, \<open>+\<close>,
  \<open>{m,n}\<close> and lazy \<open>*?\<close>), concatenation, alternation, the anchors \<open>^\<close> and \<open>$\<close>, and
  lookahead. \<open>re\<close> matches by backtracking: the alternatives of a pattern are tried in a
  fixed order and the first complete match is taken. The matcher below returns, for a
  pattern and a position, the positions where a match can end, in that order, so that
  the head of the list is the match \<open>re\<close> reports.

  \<open>\d\<close> matches the decimal digits of Unicode (category Nd, here of Unicode 14.0): runs
  of ten code points with the values 0 to 9. \<open>int\<close> reads such digits by their values;
  numerals are taken to be shorter than the interpreter's limit on integer conversion.
\<close>

definition digit_blocks :: "nat list" where
  "digit_blocks =
     [48, 1632, 1776, 1984, 2406, 2534, 2662, 2790, 2918, 3046, 3174, 3302, 3430, 3558, 3664,
      3792, 3872, 4160, 4240, 6112, 6160, 6470, 6608, 6784, 6800, 6992, 7088, 7232, 7248,
      42528, 43216, 43264, 43472, 43504, 43600, 44016, 65296, 66720, 68912, 69734, 69872,
      69942, 70096, 70384, 70736, 70864, 71248, 71360, 71472, 71904, 72016, 72784, 73040,
      73120, 92768, 92864, 93008, 120782, 120792, 120802, 120812, 120822, 123200, 123632,
      125264, 130032]"

definition is_digit :: "nat \<Rightarrow> bool" where
  "is_digit c = list_ex (\<lambda>start. start \<le> c \<and> c < start + 10) digit_blocks"

definition digit_value :: "nat \<Rightarrow> nat" where
  "digit_value c =
     (case find (\<lambda>start. start \<le> c \<and> c < start + 10) digit_blocks of
        Some start \<Rightarrow> c - start
      | None \<Rightarrow> 0)"

definition int_of_digits :: "ustr \<Rightarrow> nat" where
  "int_of_digits ds = foldl (\<lambda>n d. 10 * n + digit_value d) 0 ds"

text \<open>
  With \<open>re.IGNORECASE\<close> a letter of a pattern matches both of its cases; the letters
  \<open>i\<close>, \<open>s\<close> and \<open>k\<close> also match U+0130 and U+0131, U+017F, and U+212A. The other
  characters of the source's patterns (Hebrew letters, digits, punctuation) have no case.
\<close>

definition ci_eq :: "nat \<Rightarrow> nat \<Rightarrow> bool" where
  "ci_eq p c \<longleftrightarrow>
     c = p \<or>
     ((in_range 65 90 p \<or> in_range 97 122 p) \<and>
      (let small = (if p \<le> 90 then p + 32 else p)
       in c = small \<or> c + 32 = small \<or>
          (small = 105 \<and> (c = 0x0130 \<or> c = 0x0131)) \<or>
          (small = 115 \<and> c = 0x017F) \<or>
          (small = 107 \<and> c = 0x212A)))"

datatype cls = CDot | CSpace | CDigit | CLit nat | CRange nat nat | CSet "cls list"

fun cls_match :: "bool \<Rightarrow> cls \<Rightarrow> nat \<Rightarrow> bool" where
  "cls_match ic CDot c = (c \<noteq> 10)"
| "cls_match ic CSpace c = is_space c"
| "cls_match ic CDigit c = is_digit c"
| "cls_match ic (CLit p) c = (if ic then ci_eq p c else c = p)"
| "cls_match ic (CRange lo hi) c =
     (if ic then list_ex (\<lambda>p. ci_eq p c) [lo..<Suc hi] else lo \<le> c \<and> c \<le> hi)"
| "cls_match ic (CSet members) c = list_ex (\<lambda>member. cls_match ic member c) members"

datatype rx =
    RBol | REol
  | RChar cls | RStar cls | RPlus cls | RLazy cls | RRep nat "nat option" cls
  | RCat "rx list" | RAlt "rx list" | RAhead rx

definition lit :: "string \<Rightarrow> rx" where
  "lit s = RCat (map (\<lambda>c. RChar (CLit (of_char c))) s)"

definition word :: "ustr \<Rightarrow> rx" where
  "word cs = RCat (map (\<lambda>c. RChar (CLit c)) cs)"

text \<open>
  A cursor is the character before the position (none at the start of the text) and the
  text from the position on. \<open>greedy\<close> lists the cursors after zero or more characters of
  a class, the longest run first.
\<close>

type_synonym cursor = "nat option \<times> ustr"

fun greedy :: "bool \<Rightarrow> cls \<Rightarrow> nat option \<Rightarrow> ustr \<Rightarrow> cursor list" where
  "greedy ic cl p [] = [(p, [])]"
| "greedy ic cl p (c # cs) =
     (if cls_match ic cl c then greedy ic cl (Some c) cs else []) @ [(p, c # cs)]"

fun ends :: "bool \<Rightarrow> bool \<Rightarrow> rx \<Rightarrow> cursor \<Rightarrow> cursor list" where
  "ends ml ic RBol (p, s) = (if p = None \<or> (ml \<and> p = Some 10) then [(p, s)] else [])"
| "ends ml ic REol (p, s) =
     (if s = [] \<or> (ml \<and> hd s = 10) \<or> (\<not> ml \<and> s = [10]) then [(p, s)] else [])"
| "ends ml ic (RChar cl) (p, s) =
     (case s of [] \<Rightarrow> [] | c # cs \<Rightarrow> if cls_match ic cl c then [(Some c, cs)] else [])"
| "ends ml ic (RStar cl) (p, s) = greedy ic cl p s"
| "ends ml ic (RPlus cl) (p, s) =
     filter (\<lambda>(q, rest). length rest < length s) (greedy ic cl p s)"
| "ends ml ic (RLazy cl) (p, s) = rev (greedy ic cl p s)"
| "ends ml ic (RRep lo hi cl) (p, s) =
     filter (\<lambda>(q, rest). lo \<le> length s - length rest \<and>
                          (case hi of None \<Rightarrow> True | Some h \<Rightarrow> length s - length rest \<le> h))
            (greedy ic cl p s)"
| "ends ml ic (RCat rs) cur =
     foldl (\<lambda>curs r. concat (map (\<lambda>c. ends ml ic r c) curs)) [cur] rs"
| "ends ml ic (RAlt rs) cur = concat (map (\<lambda>r. ends ml ic r cur) rs)"
| "ends ml ic (RAhead r) cur = (if ends ml ic r cur \<noteq> [] then [cur] else [])"

text \<open>\<open>re.match(pattern, text)\<close> as a truth value: a match at the start of the text.\<close>

definition re_match :: "bool \<Rightarrow> bool \<Rightarrow> rx \<Rightarrow> ustr \<Rightarrow> bool" where
  "re_match ml ic pattern text \<longleftrightarrow> ends ml ic pattern (None, text) \<noteq> []"

text \<open>
  \<open>re.sub(pattern, repl, text)\<close> for a pattern that matches no empty string, which is the
  case of every pattern the source substitutes: at each position the first match is
  replaced and the scan goes on behind it. The counter says how many characters of the
  match are still to be skipped.
\<close>

fun re_sub_go :: "bool \<Rightarrow> bool \<Rightarrow> rx \<Rightarrow> ustr \<Rightarrow> nat \<Rightarrow> nat option \<Rightarrow> ustr \<Rightarrow> ustr" where
  "re_sub_go ml ic pattern repl k p [] = []"
| "re_sub_go ml ic pattern repl k p (c # cs) =
     (if 0 < k then re_sub_go ml ic pattern repl (k - 1) (Some c) cs
      else (case ends ml ic pattern (p, c # cs) of
              [] \<Rightarrow> c # re_sub_go ml ic pattern repl 0 (Some c) cs
            | (q, rest) # others \<Rightarrow>
                if length rest < length (c # cs)
                then repl @ re_sub_go ml ic pattern repl (length cs - length rest) (Some c) cs
                else c # re_sub_go ml ic pattern repl 0 (Some c) cs))"

definition re_sub :: "bool \<Rightarrow> bool \<Rightarrow> rx \<Rightarrow> ustr \<Rightarrow> ustr \<Rightarrow> ustr" where
  "re_sub ml ic pattern repl text = re_sub_go ml ic pattern repl 0 None text"

text \<open>
  \<open>re.split(pattern, text)\<close> for a pattern that is a lookahead, as all the question
  patterns are: the text is cut at every position where the lookahead holds (Python 3.7
  and later), a cut at the start giving an empty first piece.
\<close>

fun re_split_go :: "bool \<Rightarrow> bool \<Rightarrow> rx \<Rightarrow> nat option \<Rightarrow> ustr \<Rightarrow> ustr \<Rightarrow> ustr list" where
  "re_split_go ml ic pattern p acc [] =
     (if ends ml ic pattern (p, []) \<noteq> [] then [rev acc, []] else [rev acc])"
| "re_split_go ml ic pattern p acc (c # cs) =
     (if ends ml ic pattern (p, c # cs) \<noteq> []
      then rev acc # re_split_go ml ic pattern (Some c) [c] cs
      else re_split_go ml ic pattern (Some c) (c # acc) cs)"

definition re_split :: "bool \<Rightarrow> bool \<Rightarrow> rx \<Rightarrow> ustr \<Rightarrow> ustr list" where
  "re_split ml ic pattern text = re_split_go ml ic pattern None [] text"

text \<open>
  \<open>re.match(r'^(\d+)[\.\)]\s*', text)\<close> followed by \<open>int(match.group(1))\<close>: the greedy
  \<open>\d+\<close> takes all leading digits, and the match exists when a dot or a closing
  parenthesis follows them.
\<close>

definition leading_number :: "ustr \<Rightarrow> nat option" where
  "leading_number text =
     (let digits = takeWhile is_digit text
      in if digits \<noteq> [] \<and>
            (case dropWhile is_digit text of [] \<Rightarrow> False | c # rest \<Rightarrow> c = 46 \<or> c = 41)
         then Some (int_of_digits digits) else None)"


section \<open>The LLM service (services/llm\_service.py)\<close>

text \<open>
  \<open>str.lower()\<close> depends on the case tables of the whole Unicode database; it is a
  parameter (\<open>lower\<close>) of the functions that call it.
\<close>

subsection \<open>Text preprocessor\<close>

text \<open>
  The instruction patterns (lines 24 to 45 of the source), compiled with
  \<open>re.MULTILINE | re.IGNORECASE\<close>.
\<close>

definition instruction_patterns :: "rx list" where
  "instruction_patterns =
     [RCat [RBol, RLazy (CDot), RAlt [word [0x05EA, 0x05E7, 0x05E0, 0x05D5, 0x05DF],
       word [0x05D4, 0x05D5, 0x05E8, 0x05D0, 0x05D5, 0x05EA],
       word [0x05D4, 0x05E0, 0x05D7, 0x05D9, 0x05D5, 0x05EA],
       word [0x05D1, 0x05D9, 0x05D0, 0x05D5, 0x05E8], word [0x05E8, 0x05E7, 0x05E2],
       word [0x05D4, 0x05D5, 0x05E8, 0x05DE, 0x05D0, 0x05D5, 0x05EA]], RLazy (CDot),
       RChar (CLit 10)],
      RCat [RBol, RLazy (CDot), RAlt [lit ''Instructions'', lit ''Directions'',
       lit ''Guidelines'', lit ''Background'', lit ''Note''], RLazy (CDot), RChar (CLit 10)],
      RCat [RBol, RStar (CSpace), word [0x05E9, 0x05DD], RStar (CSpace),
       word [0x05D4, 0x05DE, 0x05D5, 0x05E2, 0x05DE, 0x05D3], RLazy (CDot), RChar (CLit 10)],
      RCat [RBol, RStar (CSpace), RAlt [lit ''Name'', lit ''Student'', lit ''ID''],
       RLazy (CDot), RChar (CLit 58), RLazy (CDot), RChar (CLit 10)],
      RCat [RBol, RStar (CSpace), word [0x05DE, 0x05E1, 0x05E4, 0x05E8], RStar (CSpace),
       word [0x05EA, 0x05E2, 0x05D5, 0x05D3, 0x05EA], RStar (CSpace),
       word [0x05D6, 0x05D4, 0x05D5, 0x05EA], RLazy (CDot), RChar (CLit 10)],
      RCat [RBol, RStar (CSpace), word [0x05EA, 0x05D0, 0x05E8, 0x05D9, 0x05DA], RLazy (CDot),
       RChar (CLit 10)],
      RCat [RBol, RStar (CSpace), RAlt [lit ''Date'', lit ''Time'', lit ''Duration''],
       RLazy (CDot), RChar (CLit 58), RLazy (CDot), RChar (CLit 10)],
      RCat [RBol, RStar (CSpace), word [0x05D6, 0x05DE, 0x05DF], RStar (CSpace),
       word [0x05D4, 0x05DE, 0x05D1, 0x05D7, 0x05DF], RLazy (CDot), RChar (CLit 10)],
      RCat [RBol, RStar (CSpace), word [0x05E6, 0x05D9, 0x05D5, 0x05DF], RLazy (CDot),
       RChar (CLit 10)],
      RCat [RBol, RStar (CSpace), RAlt [lit ''Score'', lit ''Grade'', lit ''Points''],
       RLazy (CDot), RChar (CLit 58), RLazy (CDot), RChar (CLit 10)],
      RCat [RBol, RStar (CSpace), word [0x05D7, 0x05EA, 0x05D9, 0x05DE, 0x05EA],
       RStar (CSpace), word [0x05D4, 0x05D1, 0x05D5, 0x05D7, 0x05DF], RLazy (CDot),
       RChar (CLit 10)],
      RCat [RBol, RStar (CSpace), RAlt [lit ''Signature'', lit ''Examiner''], RLazy (CDot),
       RChar (CLit 10)],
      RCat [RBol, RStar (CSpace), word [0x05D3, 0x05E3], RStar (CSpace), RPlus (CDigit),
       RStar (CSpace), word [0x05DE, 0x05EA, 0x05D5, 0x05DA], RStar (CSpace), RPlus (CDigit),
       RLazy (CDot), RChar (CLit 10)],
      RCat [RBol, RStar (CSpace), lit ''Page'', RStar (CSpace), RPlus (CDigit),
       RStar (CSpace), lit ''of'', RStar (CSpace), RPlus (CDigit), RLazy (CDot),
       RChar (CLit 10)],
      RCat [RBol, RLazy (CDot), RAlt [RCat [lit ''Cybersecurity'', RPlus (CSpace),
       lit ''Exam''], RCat [lit ''Security'', RPlus (CSpace), lit ''Test''],
       RCat [word [0x05DE, 0x05D1, 0x05D7, 0x05DF], RPlus (CSpace),
       word [0x05D0, 0x05D1, 0x05D8, 0x05D7, 0x05D4]]], RLazy (CDot), RChar (CLit 10)],
      RCat [RBol, RLazy (CDot), RAlt [RCat [lit ''Part'', RPlus (CSpace),
       RChar (CRange 65 90)], RCat [word [0x05D7, 0x05DC, 0x05E7], RPlus (CSpace),
       RChar (CRange 0x05D0 0x05D6)]], RLazy (CDot), RChar (CLit 10)],
      RCat [RBol, RLazy (CDot), RAlt [RCat [lit ''Total'', RPlus (CSpace), lit ''Questions''],
       RCat [word [0x05E1, 0x05DA], RPlus (CSpace),
       word [0x05D4, 0x05E9, 0x05D0, 0x05DC, 0x05D5, 0x05EA]]], RLazy (CDot), RChar (CLit 10)],
      RCat [RBol, RLazy (CDot), word [0x05D1, 0x05D4, 0x05E6, 0x05DC, 0x05D7, 0x05D4],
       RLazy (CDot), RChar (CLit 10)]]"

definition preprocess_text :: "ustr \<Rightarrow> ustr" where
  "preprocess_text text =
     (let text = fold (\<lambda>pattern t. re_sub True True pattern [] t) instruction_patterns text;
          text = re_sub False False
                   (RCat [RChar (CLit 10), RStar CSpace, RChar (CLit 10), RStar CSpace,
                          RChar (CLit 10)]) newline2 text;
          text = re_sub True False (RCat [RBol, RPlus CSpace]) [] text
      in text)"

subsection \<open>Chunker\<close>

text \<open>The question patterns (lines 68 to 80 of the source), compiled without flags.\<close>

definition question_patterns :: "rx list" where
  "question_patterns =
     [RAhead (RCat [RAlt [RChar (CLit 10), RBol], RStar (CSpace), RPlus (CDigit),
       RChar (CSet [CLit 46, CLit 41]), RStar (CSpace)]),
      RAhead (RCat [RAlt [RChar (CLit 10), RBol], RStar (CSpace),
       RCat [word [0x05E9, 0x05D0, 0x05DC, 0x05D4], RStar (CSpace), RPlus (CDigit)],
       RChar (CSet [CLit 46, CLit 41, CLit 58]), RStar (CSpace)]),
      RAhead (RCat [RAlt [RChar (CLit 10), RBol], RStar (CSpace), RCat [lit ''Question'',
       RStar (CSpace), RPlus (CDigit)], RChar (CSet [CLit 46, CLit 41, CLit 58]),
       RStar (CSpace)]),
      RAhead (RCat [RAlt [RChar (CLit 10), RBol], RStar (CSpace), RCat [RChar (CLit 81),
       RPlus (CDigit)], RChar (CSet [CLit 46, CLit 41, CLit 58]), RStar (CSpace)]),
      RAhead (RCat [RAlt [RChar (CLit 10), RBol], RStar (CSpace), RCat [RChar (CLit 40),
       RPlus (CDigit), RChar (CLit 41)], RStar (CSpace)]),
      RAhead (RCat [RAlt [RChar (CLit 10), RBol], RStar (CSpace), RCat [RPlus (CDigit),
       RStar (CSpace), RChar (CSet [CLit 45, CLit 0x2013, CLit 0x2014])], RStar (CSpace)]),
      RAhead (RCat [RAlt [RChar (CLit 10), RBol], RStar (CSpace), RCat [RPlus (CDigit),
       RStar (CSpace), RChar (CLit 46)], RStar (CSpace), RAlt [lit ''What'', lit ''Which'',
       lit ''How'', lit ''When'', lit ''Where'', lit ''Why'', lit ''If'',
       RCat [RChar (CLit 65), RPlus (CSpace), lit ''security''], RCat [lit ''The'',
       RPlus (CSpace), lit ''best''], RCat [lit ''An'', RPlus (CSpace), lit ''attacker'']]]),
      RAhead (RCat [RAlt [RChar (CLit 10), RBol], RStar (CSpace), RCat [RPlus (CDigit),
       RStar (CSpace), RChar (CSet [CLit 46, CLit 41])], RStar (CSpace),
       RAlt [word [0x05DE, 0x05D4], word [0x05D0, 0x05D9, 0x05DA],
       word [0x05DE, 0x05EA, 0x05D9], word [0x05D0, 0x05D9, 0x05E4, 0x05D4],
       word [0x05DC, 0x05DE, 0x05D4], word [0x05DB, 0x05D9, 0x05E6, 0x05D3],
       word [0x05D4, 0x05D0, 0x05DD], RCat [word [0x05DE, 0x05E2, 0x05E8, 0x05DB, 0x05EA],
       RPlus (CSpace), word [0x05D0, 0x05D1, 0x05D8, 0x05D7, 0x05D4]],
       word [0x05EA, 0x05D5, 0x05E7, 0x05E3]]])]"

definition content_question_indicators :: "ustr list" where
  "content_question_indicators =
     [ascii ''?'', [0x05DE, 0x05D4], [0x05D0, 0x05D9, 0x05DA], [0x05DE, 0x05EA, 0x05D9],
      [0x05D0, 0x05D9, 0x05E4, 0x05D4], [0x05DC, 0x05DE, 0x05D4], [0x05DB, 0x05DE, 0x05D4],
      ascii ''what'', ascii ''how'', ascii ''when'', ascii ''where'', ascii ''why'',
      ascii ''which'', ascii ''who'']"

definition content_instruction_keywords :: "ustr list" where
  "content_instruction_keywords =
     [[0x05D4, 0x05D5, 0x05E8, 0x05D0, 0x05D5, 0x05EA],
      [0x05D4, 0x05E0, 0x05D7, 0x05D9, 0x05D5, 0x05EA],
      [0x05EA, 0x05E7, 0x05E0, 0x05D5, 0x05DF],
      [0x05E9, 0x05DD, 32, 0x05D4, 0x05DE, 0x05D5, 0x05E2, 0x05DE, 0x05D3],
      [0x05EA, 0x05E2, 0x05D5, 0x05D3, 0x05EA, 32, 0x05D6, 0x05D4, 0x05D5, 0x05EA],
      [0x05D6, 0x05DE, 0x05DF, 32, 0x05D4, 0x05DE, 0x05D1, 0x05D7, 0x05DF],
      ascii ''instructions'', ascii ''directions'', ascii ''guidelines'', ascii ''name:'',
      ascii ''id:'', ascii ''student:'', ascii ''time:'', ascii ''duration:'']"

definition looks_like_question_content :: "(ustr \<Rightarrow> ustr) \<Rightarrow> ustr \<Rightarrow> bool" where
  "looks_like_question_content lower text =
     (let text_lower = lower text;
          has_question_indicator =
            list_ex (\<lambda>indicator. contains indicator text_lower) content_question_indicators;
          has_reasonable_length = (length (strip text) > 15);
          is_not_instruction =
            (\<not> list_ex (\<lambda>keyword. contains keyword text_lower) content_instruction_keywords)
      in has_question_indicator \<and> has_reasonable_length \<and> is_not_instruction)"

text \<open>
  The loop over the patterns keeps the segmentation with the most valid segments;
  \<open>best_segments\<close> starts as \<open>None\<close>.
\<close>

definition valid_segments :: "rx \<Rightarrow> ustr \<Rightarrow> ustr list" where
  "valid_segments pattern text =
     map strip (filter (\<lambda>s. strip s \<noteq> [] \<and> length (strip s) > 15)
                       (re_split False False pattern text))"

definition pattern_step ::
  "ustr \<Rightarrow> ustr list option \<times> nat \<Rightarrow> rx \<Rightarrow> ustr list option \<times> nat" where
  "pattern_step text st pattern =
     (case st of (best_segments, best_count) \<Rightarrow>
        let valid = valid_segments pattern text
        in if length valid > best_count then (Some valid, length valid)
           else (best_segments, best_count))"

definition best_segmentation :: "ustr \<Rightarrow> ustr list option \<times> nat" where
  "best_segmentation text = foldl (pattern_step text) (None, 0) question_patterns"

text \<open>The fallback over the lines of the text (lines 98 to 128 of the source).\<close>

definition starts_numbered :: "ustr \<Rightarrow> bool" where
  "starts_numbered line =
     re_match False False
       (RCat [RBol, RPlus CDigit, RPlus (CSet [CLit 46, CLit 41, CLit 45, CSpace])]) line"

definition fallback_step :: "ustr list \<times> ustr \<Rightarrow> ustr \<Rightarrow> ustr list \<times> ustr" where
  "fallback_step st raw_line =
     (case st of (segments, current_segment) \<Rightarrow>
        let line = strip raw_line
        in if starts_numbered line \<and> length line > 3
           then ((if current_segment \<noteq> [] then segments @ [strip current_segment]
                  else segments), line)
           else if current_segment \<noteq> [] then (segments, current_segment @ [10] @ line)
           else (segments, current_segment))"

definition fallback_segments :: "ustr \<Rightarrow> ustr list" where
  "fallback_segments text =
     (case foldl fallback_step ([], []) (split [10] text) of
        (segments0, current_segment) \<Rightarrow>
          let segments = (if current_segment \<noteq> [] then segments0 @ [strip current_segment]
                          else segments0)
          in filter (\<lambda>s. length (strip s) > 20) segments)"

text \<open>Python's \<open>not best_segments\<close>: \<open>None\<close> or the empty list.\<close>

definition no_segments :: "ustr list option \<Rightarrow> bool" where
  "no_segments best_segments \<longleftrightarrow> best_segments = None \<or> best_segments = Some []"

definition select_segments :: "(ustr \<Rightarrow> ustr) \<Rightarrow> ustr \<Rightarrow> ustr list" where
  "select_segments lower text =
     (case best_segmentation text of
        (best_segments0, best_count) \<Rightarrow>
          let best_segments =
                (if no_segments best_segments0 \<or> best_count < 10
                 then (let valid = fallback_segments text
                       in if length valid > best_count then Some valid else best_segments0)
                 else best_segments0)
          in (case best_segments of
                Some (s # segments) \<Rightarrow> s # segments
              | _ \<Rightarrow>
                  filter (looks_like_question_content lower)
                    (map strip (filter (\<lambda>s. strip s \<noteq> []) (split newline2 text)))))"

text \<open>The packing loop (lines 135 to 148 of the source).\<close>

definition pack_step :: "nat \<Rightarrow> ustr list \<times> ustr \<Rightarrow> ustr \<Rightarrow> ustr list \<times> ustr" where
  "pack_step n st segment =
     (case st of (chunks, current_chunk) \<Rightarrow>
        if length current_chunk + length segment > n
        then ((if current_chunk \<noteq> [] then chunks @ [strip current_chunk] else chunks),
              segment)
        else (chunks, (if current_chunk \<noteq> [] then current_chunk @ newline2 @ segment
                       else segment)))"

definition pack_segments :: "nat \<Rightarrow> ustr list \<Rightarrow> ustr list" where
  "pack_segments n segments =
     (case foldl (pack_step n) ([], []) segments of
        (chunks, current_chunk) \<Rightarrow>
          if current_chunk \<noteq> [] then chunks @ [strip current_chunk] else chunks)"

definition chunk_text_intelligently ::
  "(ustr \<Rightarrow> ustr) \<Rightarrow> nat \<Rightarrow> ustr \<Rightarrow> py_error + ustr list" where
  "chunk_text_intelligently lower n raw_text =
     (let text = preprocess_text raw_text;
          best_segments = select_segments lower text;
          chunks = pack_segments n best_segments
      in if length chunks = 1 \<and> length text > n then fixed_width n text else Inr chunks)"

subsection \<open>Deterministic scanner\<close>

record numbered_question =
  det_number :: nat
  det_text :: ustr
  det_raw_text :: ustr
  det_line_start :: int
  det_line_end :: int

definition scan_step ::
  "numbered_question list \<times> ustr \<times> nat \<Rightarrow> nat \<times> ustr \<Rightarrow> numbered_question list \<times> ustr \<times> nat" where
  "scan_step st indexed_line =
     (case st of (questions, current_question, current_number) \<Rightarrow>
      case indexed_line of (i, raw_line) \<Rightarrow>
        let line = strip raw_line
        in (case leading_number line of
              Some n \<Rightarrow>
                ((if current_question \<noteq> [] \<and> current_number > 0
                  then questions @
                       [\<lparr>det_number = current_number, det_text = strip current_question,
                         det_raw_text = current_question,
                         det_line_start = int i - int (count_list current_question 10),
                         det_line_end = int i - 1\<rparr>]
                  else questions), line, n)
            | None \<Rightarrow>
                if current_question \<noteq> [] \<and> current_number > 0
                then (questions, current_question @ [10] @ line, current_number)
                else (questions, current_question, current_number)))"

definition extract_numbered_questions_deterministic :: "ustr \<Rightarrow> numbered_question list" where
  "extract_numbered_questions_deterministic text =
     (let lines = split [10] text
      in case foldl scan_step ([], [], 0) (zip [0..<length lines] lines) of
           (questions, current_question, current_number) \<Rightarrow>
             if current_question \<noteq> [] \<and> current_number > 0
             then questions @
                  [\<lparr>det_number = current_number, det_text = strip current_question,
                    det_raw_text = current_question,
                    det_line_start = int (length lines) - int (count_list current_question 10),
                    det_line_end = int (length lines) - 1\<rparr>]
             else questions)"

subsection \<open>Candidate questions and the validator\<close>

text \<open>
  A question is a dictionary; a field is \<open>None\<close> when the key is absent. The fields the
  upstream model supplies are taken to have the types of the wire contract: texts, and a
  number for the confidence, kept as the exact value of the parsed float. The constants
  0.01, 0.5 and 0.8 of the source are the exact values of these doubles.
\<close>

datatype source = FromChunk nat | Recovery

record question =
  question_id :: "ustr option"
  question_text :: "ustr option"
  question_type :: "ustr option"
  topic :: "ustr option"
  difficulty :: "ustr option"
  confidence_score :: "rat option"
  source_chunk :: "source option"
  detection_method :: "ustr option"
  question_number :: "nat option"

definition float_0_01 :: rat where
  "float_0_01 = 5764607523034235 / 576460752303423488"

definition float_0_5 :: rat where
  "float_0_5 = 1 / 2"

definition float_0_8 :: rat where
  "float_0_8 = 3602879701896397 / 4503599627370496"

definition get_question_text :: "question \<Rightarrow> ustr" where
  "get_question_text q = (case question_text q of None \<Rightarrow> [] | Some t \<Rightarrow> t)"

text \<open>
  The reject patterns (lines 434 to 454 of the source), matched with
  \<open>re.MULTILINE | re.IGNORECASE\<close>.
\<close>

definition reject_patterns :: "rx list" where
  "reject_patterns =
     [RCat [RBol, RLazy (CDot), RAlt [word [0x05E9, 0x05DD],
       word [0x05EA, 0x05E2, 0x05D5, 0x05D3, 0x05EA, 32, 0x05D6, 0x05D4, 0x05D5, 0x05EA],
       word [0x05DE, 0x05E1, 0x05E4, 0x05E8], word [0x05EA, 0x05D0, 0x05E8, 0x05D9, 0x05DA],
       word [0x05D6, 0x05DE, 0x05DF], word [0x05E6, 0x05D9, 0x05D5, 0x05DF],
       word [0x05D7, 0x05EA, 0x05D9, 0x05DE, 0x05D4]], RLazy (CDot), RChar (CLit 58)],
      RCat [RBol, RLazy (CDot), RAlt [word [0x05D4, 0x05D5, 0x05E8, 0x05D0, 0x05D5, 0x05EA],
       word [0x05D4, 0x05E0, 0x05D7, 0x05D9, 0x05D5, 0x05EA],
       word [0x05EA, 0x05E7, 0x05E0, 0x05D5, 0x05DF],
       word [0x05D1, 0x05D9, 0x05D0, 0x05D5, 0x05E8], word [0x05E8, 0x05E7, 0x05E2]]],
      RCat [RBol, RLazy (CDot), word [0x05D3, 0x05E3], RStar (CSpace), RPlus (CDigit),
       RStar (CSpace), word [0x05DE, 0x05EA, 0x05D5, 0x05DA], RStar (CSpace), RPlus (CDigit)],
      RAlt [RCat [RBol, RLazy (CDot), word [0x05D1, 0x05D4, 0x05E6, 0x05DC, 0x05D7, 0x05D4]],
       RCat [word [0x05D1, 0x05D4, 0x05E6, 0x05DC, 0x05D7, 0x05D4], RLazy (CDot), REol]],
      RCat [RBol, RLazy (CDot), word [0x05DE, 0x05D5, 0x05E2, 0x05D3], RStar (CSpace),
       RChar (CSet [CLit 0x05D0, CLit 0x05D1]), RLazy (CDot), REol],
      RCat [RBol, RLazy (CDot), RAlt [lit ''name'', lit ''student'', lit ''id'', lit ''date'',
       lit ''time'', lit ''score'', lit ''signature''], RLazy (CDot), RChar (CLit 58)],
      RCat [RBol, RLazy (CDot), RAlt [lit ''instructions'', lit ''directions'',
       lit ''guidelines'', lit ''background'', lit ''note'']],
      RCat [RBol, RLazy (CDot), lit ''page'', RStar (CSpace), RPlus (CDigit), RStar (CSpace),
       lit ''of'', RStar (CSpace), RPlus (CDigit)],
      RCat [RBol, RLazy (CDot), lit ''good'', RStar (CSpace), lit ''luck''],
      RCat [RBol, RLazy (CDot), RAlt [lit ''exam'', lit ''test''], RStar (CSpace),
       RAlt [lit ''name'', lit ''title'']],
      RCat [RBol, RStar (CSpace), RRep 3 (None) (CSet [CLit 0x05BE, CLit 45, CLit 95,
       CLit 61])],
      RCat [RBol, RStar (CSpace), RPlus (CDigit), RStar (CSpace), REol],
      RCat [RBol, RStar (CSpace), RRep 1 (Some 3) (CSet [CRange 0x05D0 0x05EA, CSpace]),
       RStar (CSpace), REol],
      RCat [RBol, RStar (CSpace), RRep 1 (Some 3) (CSet [CRange 97 122, CRange 65 90,
       CSpace]), RStar (CSpace), REol]]"

definition validate_question_indicators :: "ustr list" where
  "validate_question_indicators =
     [ascii ''?'', [0x05DE, 0x05D4], [0x05D0, 0x05D9, 0x05DA], [0x05DE, 0x05EA, 0x05D9],
      [0x05D0, 0x05D9, 0x05E4, 0x05D4], [0x05DC, 0x05DE, 0x05D4], [0x05DB, 0x05DE, 0x05D4],
      [0x05D4, 0x05D0, 0x05DD], [0x05DE, 0x05D3, 0x05D5, 0x05E2],
      [0x05DB, 0x05D9, 0x05E6, 0x05D3], ascii ''what'', ascii ''how'', ascii ''when'',
      ascii ''where'', ascii ''why'', ascii ''which'', ascii ''who'', ascii ''explain'',
      ascii ''describe'', ascii ''calculate'', ascii ''solve'', ascii ''find'',
      ascii ''determine'', ascii ''identify'', ascii ''analyze'', ascii ''compare'']"

definition option_markers :: "ustr list" where
  "option_markers =
     [[0x05D0, 41], [0x05D1, 41], [0x05D2, 41], [0x05D3, 41], ascii ''A)'', ascii ''B)'',
      ascii ''C)'', ascii ''D)'', ascii ''1)'', ascii ''2)'', ascii ''3)'', ascii ''4)'',
      [40, 0x05D0, 41], [40, 0x05D1, 41], [40, 0x05D2, 41], [40, 0x05D3, 41], ascii ''(A)'',
      ascii ''(B)'', ascii ''(C)'', ascii ''(D)'', ascii ''(1)'', ascii ''(2)'', ascii ''(3)'',
      ascii ''(4)'']"

definition numbered_prefix :: rx where
  "numbered_prefix = RCat [RBol, RPlus CDigit, RChar (CSet [CLit 46, CLit 41]), RStar CSpace]"

definition validate_question :: "(ustr \<Rightarrow> ustr) \<Rightarrow> question \<Rightarrow> bool" where
  "validate_question lower q =
     (let qtext = strip (get_question_text q)
      in if qtext = [] \<or> length qtext < 10 then False
         else let text_lower = lower qtext
         in if list_ex (\<lambda>pattern. re_match True True pattern text_lower) reject_patterns
            then False
            else let has_question_indicator =
                       list_ex (\<lambda>indicator. contains indicator text_lower)
                         validate_question_indicators;
                     has_options =
                       list_ex (\<lambda>pattern. contains pattern qtext) option_markers
            in if \<not> (has_question_indicator \<or> has_options) then False
               else let confidence =
                          (case confidence_score q of None \<Rightarrow> float_0_5 | Some c \<Rightarrow> c)
               in if confidence < float_0_01 then False
                  else if question_type q = Some (ascii ''unknown'') \<and> \<not> has_options \<and>
                          \<not> contains (ascii ''?'') qtext \<and>
                          \<not> re_match False False numbered_prefix (strip qtext)
                  then False
                  else True)"

subsection \<open>Recovery\<close>

definition simple_choice_indicators :: "ustr list" where
  "simple_choice_indicators =
     [ascii ''a)'', ascii ''b)'', ascii ''c)'', ascii ''d)'', ascii ''A)'', ascii ''B)'',
      ascii ''C)'', ascii ''D)'']"

definition simple_true_false_indicators :: "ustr list" where
  "simple_true_false_indicators =
     [ascii ''true or false'', ascii ''true/false'', ascii ''t/f'']"

definition determine_question_type_simple :: "(ustr \<Rightarrow> ustr) \<Rightarrow> ustr \<Rightarrow> ustr" where
  "determine_question_type_simple lower qtext =
     (let text_lower = lower qtext
      in if list_ex (\<lambda>indicator. contains indicator qtext) simple_choice_indicators
         then ascii ''multiple_choice''
         else if list_ex (\<lambda>indicator. contains indicator text_lower)
                   simple_true_false_indicators
         then ascii ''true_false''
         else ascii ''multiple_choice'')"

definition found_numbers :: "question list \<Rightarrow> nat set" where
  "found_numbers found_questions =
     set (List.map_filter (\<lambda>q. leading_number (strip (get_question_text q))) found_questions)"

definition recovered_question :: "(ustr \<Rightarrow> ustr) \<Rightarrow> numbered_question \<Rightarrow> question" where
  "recovered_question lower det_q =
     \<lparr>question_id = Some (ascii ''recovery_q_'' @ str_of_nat (det_number det_q)),
      question_text = Some (det_text det_q),
      question_type = Some (determine_question_type_simple lower (det_text det_q)),
      topic = Some (ascii ''Cybersecurity''),
      difficulty = Some (ascii ''medium''),
      confidence_score = Some float_0_8,
      source_chunk = Some Recovery,
      detection_method = Some (ascii ''deterministic_recovery''),
      question_number = Some (det_number det_q)\<rparr>"

definition recover_missing_questions ::
  "(ustr \<Rightarrow> ustr) \<Rightarrow> numbered_question list \<Rightarrow> question list \<Rightarrow> question list" where
  "recover_missing_questions lower deterministic_questions found_questions =
     map (recovered_question lower)
       (filter (\<lambda>det_q. det_number det_q \<notin> found_numbers found_questions \<and>
                        length (strip (det_text det_q)) > 20)
               deterministic_questions)"

subsection \<open>LLM dispatcher\<close>

text \<open>
  One attempt of \<open>_call_openai_api\<close> has one of four outcomes: the call or the access
  to its response raises; the content parses as JSON; the content does not parse but
  the span from its first to its last brace does; neither parses. A parsed result is
  taken to be a JSON object, given by the value under its key \<open>questions\<close> (\<open>None\<close>
  when the key is absent). The upstream service is a parameter: the outcome of the
  attempt \<open>a\<close> for the chunk \<open>i\<close>.
\<close>

type_synonym llm_result = "question list option"

datatype api_outcome = ApiRaises | Parsed llm_result | Salvaged llm_result | Unparseable

definition analysis_max_retries :: nat where
  "analysis_max_retries = 3"

fun call_attempts :: "(nat \<Rightarrow> api_outcome) \<Rightarrow> nat list \<Rightarrow> llm_result option" where
  "call_attempts outcome [] = None"
| "call_attempts outcome (attempt # rest) =
     (case outcome attempt of
        Parsed result \<Rightarrow> Some result
      | Salvaged result \<Rightarrow> Some result
      | Unparseable \<Rightarrow>
          if attempt = analysis_max_retries - 1 then None else call_attempts outcome rest
      | ApiRaises \<Rightarrow>
          if attempt < analysis_max_retries - 1 then call_attempts outcome rest else None)"

definition call_openai_api :: "(nat \<Rightarrow> nat \<Rightarrow> api_outcome) \<Rightarrow> nat \<Rightarrow> llm_result option" where
  "call_openai_api llm chunk_index =
     call_attempts (llm chunk_index) [0..<analysis_max_retries]"

subsection \<open>Reconciler\<close>

definition accept_question :: "nat \<Rightarrow> question list \<Rightarrow> question \<Rightarrow> question" where
  "accept_question i all_questions q =
     q\<lparr>question_id :=
         Some (ascii ''chunk_'' @ str_of_nat (i + 1) @ ascii ''_'' @
               (case question_id q of Some qid \<Rightarrow> qid
                | None \<Rightarrow> str_of_nat (length all_questions))),
       source_chunk := Some (FromChunk (i + 1)),
       detection_method := Some (ascii ''llm'')\<rparr>"

definition merge_question ::
  "(ustr \<Rightarrow> ustr) \<Rightarrow> nat \<Rightarrow> question list \<times> nat \<Rightarrow> question \<Rightarrow> question list \<times> nat" where
  "merge_question lower i st q =
     (case st of (all_questions, excluded_questions) \<Rightarrow>
        if validate_question lower q
        then (all_questions @ [accept_question i all_questions q], excluded_questions)
        else (all_questions, Suc excluded_questions))"

definition merge_chunk ::
  "(ustr \<Rightarrow> ustr) \<Rightarrow> question list \<times> nat \<Rightarrow> nat \<times> llm_result option \<Rightarrow> question list \<times> nat" where
  "merge_chunk lower st indexed_result =
     (case indexed_result of
        (i, Some (Some chunk_questions)) \<Rightarrow> foldl (merge_question lower i) st chunk_questions
      | _ \<Rightarrow> st)"

definition merge_results ::
  "(ustr \<Rightarrow> ustr) \<Rightarrow> llm_result option list \<Rightarrow> question list \<times> nat" where
  "merge_results lower results =
     foldl (merge_chunk lower) ([], 0) (zip [0..<length results] results)"

record topic_summary =
  topic_id :: ustr
  topic_name :: ustr
  question_count :: nat
  topic_keywords :: "ustr list"

fun count_topic :: "(ustr \<times> nat) list \<Rightarrow> ustr \<Rightarrow> (ustr \<times> nat) list" where
  "count_topic [] t = [(t, 1)]"
| "count_topic ((name, count) # counts) t =
     (if name = t then (name, count + 1) # counts else (name, count) # count_topic counts t)"

definition topic_counts :: "question list \<Rightarrow> (ustr \<times> nat) list" where
  "topic_counts all_questions =
     foldl count_topic []
       (map (\<lambda>q. case topic q of None \<Rightarrow> ascii ''Unknown'' | Some t \<Rightarrow> t) all_questions)"

definition topic_summaries :: "(ustr \<Rightarrow> ustr) \<Rightarrow> question list \<Rightarrow> topic_summary list" where
  "topic_summaries lower all_questions =
     (let counts = topic_counts all_questions
      in map (\<lambda>(i, (name, count)).
                \<lparr>topic_id = ascii ''topic_'' @ str_of_nat i, topic_name = name,
                 question_count = count, topic_keywords = [replace [32] [95] (lower name)]\<rparr>)
             (zip [0..<length counts] counts))"

record analysis_result =
  questions :: "question list"
  topics :: "topic_summary list"
  total_questions :: nat
  topics_found :: nat
  question_types :: "ustr set"
  chunks_processed :: "nat option"
  processing_success :: bool
  analysis_error :: "ustr option"

text \<open>
  \<open>analyze_text_with_llm\<close>, with the service's \<open>max_chunk_size\<close> as the parameter
  \<open>n\<close>. The quality-control pass \<open>_validate_against_deterministic_scan\<close> only writes
  to the log and is left out.
\<close>

text \<open>
  All chunks are dispatched at once (\<open>asyncio.gather\<close>); each task returns the result
  of \<open>_call_openai_api\<close> for its chunk, and the results come back in chunk order.
\<close>

definition dispatch :: "(nat \<Rightarrow> nat \<Rightarrow> api_outcome) \<Rightarrow> ustr list \<Rightarrow> llm_result option list" where
  "dispatch llm chunks = map (call_openai_api llm) [0..<length chunks]"

definition analyze_text_with_llm ::
  "(ustr \<Rightarrow> ustr) \<Rightarrow> nat \<Rightarrow> (nat \<Rightarrow> nat \<Rightarrow> api_outcome) \<Rightarrow> ustr \<Rightarrow> analysis_result" where
  "analyze_text_with_llm lower n llm text =
     (let numbered_questions = extract_numbered_questions_deterministic text
      in case chunk_text_intelligently lower n text of
           Inl e \<Rightarrow>
             \<lparr>questions = [], topics = [], total_questions = 0, topics_found = 0,
              question_types = {}, chunks_processed = None, processing_success = False,
              analysis_error = Some (ascii ''range() arg 3 must not be zero'')\<rparr>
         | Inr chunks \<Rightarrow>
             let results = dispatch llm chunks;
                 llm_questions = fst (merge_results lower results);
                 all_questions =
                   (if length llm_questions < 10
                    then llm_questions @
                         recover_missing_questions lower numbered_questions llm_questions
                    else llm_questions);
                 topic_list = topic_summaries lower all_questions
             in \<lparr>questions = all_questions, topics = topic_list,
                  total_questions = length all_questions, topics_found = length topic_list,
                  question_types =
                    set (List.map_filter
                           (\<lambda>q. case question_type q of
                                  Some t \<Rightarrow> if t \<noteq> [] then Some t else None
                                | None \<Rightarrow> None) llm_questions),
                  chunks_processed = Some (length chunks), processing_success = True,
                  analysis_error = None\<rparr>)"


section \<open>Auxiliary predicates of the proofs\<close>

text \<open>
  A text is whitespace-normal when its only whitespace characters are single spaces:
  the shape \<open>re.sub(r'\s+', ' ', text)\<close> produces and leaves alone.
\<close>

fun ws_normal :: "ustr \<Rightarrow> bool" where
  "ws_normal [] = True"
| "ws_normal [c] = (is_space c \<longrightarrow> c = 32)"
| "ws_normal (c # d # cs) = ((is_space c \<longrightarrow> c = 32 \<and> \<not> is_space d) \<and> ws_normal (d # cs))"


text \<open>
  A stripped text is not empty and neither begins nor ends with whitespace:
  \<open>str.strip()\<close> leaves it unchanged.
\<close>

definition stripped :: "ustr \<Rightarrow> bool" where
  "stripped s \<longleftrightarrow> s \<noteq> [] \<and> \<not> is_space (hd s) \<and> \<not> is_space (last s)"

text \<open>A character that one of the patterns of \<open>_contains_hebrew_characters\<close> matches.\<close>

definition hebrew_char :: "nat \<Rightarrow> bool" where
  "hebrew_char c = list_ex (\<lambda>pattern. pattern c) hebrew_patterns"


text \<open>A question that the recovery added carries the tag \<open>deterministic_recovery\<close>.\<close>

definition is_recovered :: "question \<Rightarrow> bool" where
  "is_recovered q \<longleftrightarrow> detection_method q = Some (ascii ''deterministic_recovery'')"


text \<open>
  A character of the Hebrew script: the two blocks that the comments of
  \<open>_contains_hebrew_characters\<close> name Hebrew and Hebrew Presentation Forms. The pattern of
  \<open>_is_hebrew_text\<close> has three more ranges, which are Arabic blocks.
\<close>

definition hebrew_script :: "nat \<Rightarrow> bool" where
  "hebrew_script c \<longleftrightarrow> in_range 0x0590 0x05FF c \<or> in_range 0xFB1D 0xFB4F c"


section \<open>Example inputs\<close>

text \<open>
  An upstream service whose first call for every chunk fails and whose later calls answer
  with a text that carries an artifact phrase, brackets and two Hebrew letters.
\<close>

definition example_llm :: "nat \<Rightarrow> nat \<Rightarrow> llm_reply" where
  "example_llm i a =
     (if a = 0 then ApiError
      else Reply (Some (ascii ''Translation: Hello [world], '' @ [0x5E9, 0x5DC] @ ascii '' peace!'')))"

text \<open>
  \<open>str.lower()\<close> on ASCII text: the letters A to Z become a to z. The example texts
  below are ASCII.
\<close>

definition ascii_lower :: "ustr \<Rightarrow> ustr" where
  "ascii_lower s = map (\<lambda>c. if 65 \<le> c \<and> c \<le> 90 then c + 32 else c) s"

definition three_questions :: ustr where
  "three_questions =
     ascii ''1. What is alpha AB?'' @ [10] @ ascii ''2. What is gamma CD?'' @ [10] @
     ascii ''3. What is delta EF?''"


definition intro_and_question :: ustr where
  "intro_and_question = ascii ''Short intro'' @ [10] @ ascii ''1. What is the OSI model?''"


definition shalom :: ustr where
  "shalom = [0x5E9, 0x5DC, 0x5D5, 0x5DD]"

text \<open>An upstream service every call of which raises.\<close>

definition failing_api :: "nat \<Rightarrow> nat \<Rightarrow> api_outcome" where
  "failing_api i a = ApiRaises"

text \<open>
  A candidate question as the upstream service returns it, and a service that raises on
  every attempt for the second chunk (index 1) and answers the other chunks with this
  question on the second attempt, after an unparseable first reply.
\<close>

definition example_question :: question where
  "example_question =
     \<lparr>question_id = Some (ascii ''q_1''), question_text = Some (ascii ''1. What is alpha AB?''),
      question_type = Some (ascii ''multiple_choice''), topic = Some (ascii ''Cybersecurity''),
      difficulty = None, confidence_score = Some (19 / 20), source_chunk = None,
      detection_method = None, question_number = None\<rparr>"

definition example_api :: "nat \<Rightarrow> nat \<Rightarrow> api_outcome" where
  "example_api i a =
     (if i = 1 then ApiRaises
      else if a = 0 then Unparseable
      else Parsed (Some [example_question]))"

text \<open>
  Two numbered questions of more than 20 characters each, and one numbered question of
  9 characters.
\<close>

definition two_long_questions :: ustr where
  "two_long_questions =
     ascii ''1. What is a firewall used for?'' @ [10] @
     ascii ''2. What does TLS encrypt on a link?''"

definition short_question :: ustr where
  "short_question = ascii ''1. Short?''"


text \<open>An Arabic word of four letters (U+0633, U+0644, U+0627, U+0645).\<close>

definition salam :: ustr where
  "salam = [0x633, 0x644, 0x627, 0x645]"


section \<open>Verified properties\<close>


subsection \<open>Whitespace and substrings\<close>

lemma is_space_32: "is_space 32"
  by (simp add: is_space_def)

lemma set_collapse_ws: "set (collapse_ws s) \<subseteq> insert 32 {c \<in> set s. \<not> is_space c}"
  by (induction s rule: collapse_ws.induct) auto

lemma ws_normal_collapse_ws: "ws_normal (collapse_ws s)"
proof (induction s rule: collapse_ws.induct)
  case 1 show ?case by simp
next
  case (2 c) show ?case by (simp add: is_space_32)
next
  case (3 c d cs)
  show ?case
  proof (cases "is_space c")
    case True
    then show ?thesis using 3 by (cases cs) (auto simp: is_space_32)
  next
    case False
    then show ?thesis using 3 by (cases "collapse_ws (d # cs)") auto
  qed
qed

lemma collapse_ws_normal: "ws_normal s \<Longrightarrow> collapse_ws s = s"
  by (induction s rule: collapse_ws.induct) auto

lemma ws_normal_drop: "ws_normal s \<Longrightarrow> ws_normal (drop k s)"
proof (induction s arbitrary: k rule: ws_normal.induct)
  case 1 show ?case by simp
next
  case (2 c) then show ?case by (cases k) auto
next
  case (3 c d cs)
  show ?case
  proof (cases k)
    case 0 then show ?thesis using 3 by simp
  next
    case (Suc j) then show ?thesis using 3 by simp
  qed
qed

lemma ws_normal_take: "ws_normal s \<Longrightarrow> ws_normal (take k s)"
proof (induction s arbitrary: k rule: ws_normal.induct)
  case 1 show ?case by simp
next
  case (2 c) then show ?case by (cases k) auto
next
  case (3 c d cs)
  show ?case
  proof (cases k)
    case 0 then show ?thesis by simp
  next
    case (Suc j)
    show ?thesis
    proof (cases j)
      case 0 then show ?thesis using 3 Suc by auto
    next
      case (Suc i)
      have "ws_normal (take (Suc i) (d # cs))" using "3.IH" [of "Suc i"] "3.prems" by simp
      then show ?thesis using "3.prems" Suc \<open>k = Suc j\<close> by simp
    qed
  qed
qed

lemma rev_dropWhile_rev: "rev (dropWhile P (rev t)) = take (length t - length (takeWhile P (rev t))) t"
proof -
  have "dropWhile P (rev t) = drop (length (takeWhile P (rev t))) (rev t)"
    by (rule dropWhile_eq_drop)
  then have "rev (dropWhile P (rev t)) = rev (drop (length (takeWhile P (rev t))) (rev t))"
    by simp
  also have "\<dots> = take (length t - length (takeWhile P (rev t))) t"
    by (simp add: rev_drop)
  finally show ?thesis .
qed

lemma strip_take_drop: "\<exists>j k. strip s = take k (drop j s)"
proof -
  have "strip s = take (length (dropWhile is_space s) - length (takeWhile is_space (rev (dropWhile is_space s))))
                 (dropWhile is_space s)"
    unfolding strip_def by (rule rev_dropWhile_rev)
  also have "dropWhile is_space s = drop (length (takeWhile is_space s)) s"
    by (rule dropWhile_eq_drop)
  finally show ?thesis by blast
qed

lemma ws_normal_strip: "ws_normal s \<Longrightarrow> ws_normal (strip s)"
  using strip_take_drop [of s] by (auto simp: ws_normal_take ws_normal_drop)

lemma set_strip: "set (strip s) \<subseteq> set s"
proof -
  obtain j k where "strip s = take k (drop j s)" using strip_take_drop by blast
  then show ?thesis by (metis set_drop_subset set_take_subset subset_trans)
qed

lemma strip_idem: "strip (strip s) = strip s"
proof -
  define u where "u = dropWhile is_space s"
  define w where "w = rev (dropWhile is_space (rev u))"
  have w_take: "w = take (length u - length (takeWhile is_space (rev u))) u"
    unfolding w_def by (rule rev_dropWhile_rev)
  have "dropWhile is_space w = w"
  proof (cases "w = []")
    case True then show ?thesis by simp
  next
    case False
    then have "0 < length u - length (takeWhile is_space (rev u))" and "u \<noteq> []"
      using w_take by auto
    then have "hd w = hd u" using w_take by (metis hd_take)
    moreover have "\<not> is_space (hd u)"
      using \<open>u \<noteq> []\<close> unfolding u_def by (rule hd_dropWhile)
    ultimately show ?thesis using False by (simp add: dropWhile_eq_self_iff)
  qed
  moreover have "dropWhile is_space (rev w) = rev w"
    unfolding w_def by simp
  ultimately have "rev (dropWhile is_space (rev (dropWhile is_space w))) = w" by simp
  then show ?thesis unfolding strip_def w_def u_def .
qed

lemma not_contains_replace: "\<not> contains old t \<Longrightarrow> replace_go old new 0 t = t"
  by (induction t) auto


subsection \<open>The analysis endpoint\<close>

text \<open>
  C8. The claim: when extraction yields no text the endpoint answers 400, and any other
  exception during analysis gives 500. The body does raise \<open>HTTPException(400)\<close>, but
  inside the \<open>try\<close> block, so the handler turns it into status 500 like every other
  exception: no outcome of the endpoint carries status 400.
\<close>

theorem analyze_document_no_text_status:
  "analyze_document (Inr None) analyze = Inl (HTTPException 500) \<and>
   analyze_document (Inr (Some [])) analyze = Inl (HTTPException 500) \<and>
   analyze_document (Inl OtherException) analyze = Inl (HTTPException 500)"
  by (simp add: analyze_document_def analyze_document_try_def)


subsection \<open>The Hebrew translator\<close>

text \<open>
  C10. A text of at most \<open>max_chunk_size\<close> (3000) characters is returned by
  \<open>_chunk_hebrew_text\<close> as the one-element list holding the text itself, unchanged.
\<close>

theorem chunk_hebrew_text_short:
  "length text \<le> max_chunk_size \<Longrightarrow> chunk_hebrew_text max_chunk_size text = Inr [text]"
  by (simp add: chunk_hebrew_text_def)

theorem chunk_hebrew_text_short_witness:
  "length [0x5E9, 0x5DC, 0x5D5, 0x5DD, 32, 10, 10::nat] \<le> max_chunk_size \<and>
   chunk_hebrew_text max_chunk_size [0x5E9, 0x5DC, 0x5D5, 0x5DD, 32, 10, 10] =
     Inr [[0x5E9, 0x5DC, 0x5D5, 0x5DD, 32, 10, 10]]"
proof -
  have h: "length [0x5E9, 0x5DC, 0x5D5, 0x5DD, 32, 10, 10::nat] \<le> max_chunk_size"
    by (simp add: max_chunk_size_def)
  show ?thesis using h chunk_hebrew_text_short [OF h] by simp
qed

text \<open>Every character of the Hebrew script is in the pattern of \<open>_is_hebrew_text\<close>.\<close>

lemma hebrew_script_detected: "hebrew_script c \<Longrightarrow> hebrew_pattern c"
  by (auto simp: hebrew_script_def hebrew_pattern_def)

text \<open>
  C9. The claim: for a text without Hebrew-script characters
  \<open>translate_hebrew_to_english\<close> returns the text unchanged, with \<open>success\<close> true and the
  message that no translation was needed, and issues no upstream call. The early return
  is taken when \<open>_is_hebrew_text\<close> finds no character of its pattern, and the pattern
  covers the Arabic blocks U+0600 to U+06FF, U+0750 to U+077F and U+08A0 to U+08FF beside
  the Hebrew ones: an Arabic word has no Hebrew-script character, and it is sent
  upstream (twice with a service that fails once, five times with a service that always
  fails) and the returned text is not the input.
  What holds: for a text with no character in the ranges of the pattern of
  \<open>_is_hebrew_text\<close> the input is returned unchanged as \<open>translated_text\<close>, with
  \<open>success\<close> true and the message that no Hebrew was detected, and no upstream call is
  issued (the call count is 0), whatever the upstream service would answer.
\<close>

theorem translate_no_detected_script:
  assumes "\<forall>c \<in> set text. \<not> hebrew_pattern c"
  shows "translate_hebrew_to_english nfkc llm text =
     (\<lparr>translated_text = text, original_chunks = 1, translated_chunks = None,
       success = True, has_hebrew = False, hebrew_free_guaranteed = None,
       message = Some (ascii ''No Hebrew text detected in input''), error = None\<rparr>, 0)"
proof -
  have "\<not> is_hebrew_text text"
    using assms by (simp add: is_hebrew_text_def list_ex_iff)
  then show ?thesis by (simp add: translate_hebrew_to_english_def)
qed

theorem translate_no_detected_script_witness:
  "\<not> list_ex hebrew_pattern (ascii ''Hello, world'') \<and>
   translate_hebrew_to_english (\<lambda>s. s) (\<lambda>i a. ApiError) (ascii ''Hello, world'') =
     (\<lparr>translated_text = ascii ''Hello, world'', original_chunks = 1, translated_chunks = None,
       success = True, has_hebrew = False, hebrew_free_guaranteed = None,
       message = Some (ascii ''No Hebrew text detected in input''), error = None\<rparr>, 0)"
proof -
  have h: "\<not> list_ex hebrew_pattern (ascii ''Hello, world'')"
    by code_simp
  then have "\<forall>c \<in> set (ascii ''Hello, world''). \<not> hebrew_pattern c"
    by (simp add: list_ex_iff)
  then show ?thesis
    using translate_no_detected_script [of "ascii ''Hello, world''" "\<lambda>s. s" "\<lambda>i a. ApiError"] h
    by simp
qed

theorem translate_arabic_counterexample:
  "\<not> list_ex hebrew_script salam \<and>
   is_hebrew_text salam \<and>
   translated_text (fst (translate_hebrew_to_english (\<lambda>s. s) example_llm salam)) =
     ascii ''Hello world, peace!'' \<and>
   translated_text (fst (translate_hebrew_to_english (\<lambda>s. s) example_llm salam)) \<noteq> salam \<and>
   snd (translate_hebrew_to_english (\<lambda>s. s) example_llm salam) = 2 \<and>
   success (fst (translate_hebrew_to_english (\<lambda>s. s) (\<lambda>i a. ApiError) salam)) \<and>
   translated_text (fst (translate_hebrew_to_english (\<lambda>s. s) (\<lambda>i a. ApiError) salam)) =
     ascii ''TRANSLATIONERRORCHUNK1'' \<and>
   snd (translate_hebrew_to_english (\<lambda>s. s) (\<lambda>i a. ApiError) salam) = 5"
  by code_simp

subsection \<open>The script sanitizer\<close>

lemma sanitize_cases:
  "sanitize_llm_response raw \<in> sanitizer_sentinels \<or>
   (\<exists>t. sanitize_llm_response raw = strip (collapse_ws (filter allowed_pattern t)))"
  unfolding sanitize_llm_response_def sanitizer_sentinels_def Let_def by auto

lemma allowed_strip_collapse_filter:
  "list_all allowed_pattern (strip (collapse_ws (filter allowed_pattern t)))"
proof -
  have "set (strip (collapse_ws (filter allowed_pattern t))) \<subseteq> insert 32 (set (filter allowed_pattern t))"
    using set_strip [of "collapse_ws (filter allowed_pattern t)"]
          set_collapse_ws [of "filter allowed_pattern t"] by blast
  moreover have "allowed_pattern 32" by (simp add: allowed_pattern_def is_space_32)
  ultimately show ?thesis by (auto simp: list_all_iff)
qed

lemma fold_artifacts_fixed:
  "strip t = t \<Longrightarrow> \<forall>a \<in> set as. \<not> contains a t \<Longrightarrow>
   fold (\<lambda>artifact t. strip (replace artifact [] t)) as t = t"
  by (induction as) (simp_all add: replace_def not_contains_replace)

lemma sanitize_fixed:
  assumes out: "out = strip (collapse_ws (filter allowed_pattern t))"
    and ne: "out \<noteq> []"
    and art: "\<forall>a \<in> set artifacts_to_remove. \<not> contains a out"
  shows "sanitize_llm_response out = out"
proof -
  have s: "strip out = out" unfolding out by (rule strip_idem)
  have f: "fold (\<lambda>artifact t. strip (replace artifact [] t)) artifacts_to_remove out = out"
    using s art by (rule fold_artifacts_fixed)
  have a: "filter allowed_pattern out = out"
    using allowed_strip_collapse_filter [of t] unfolding out by (simp add: list_all_iff)
  have "ws_normal out" unfolding out by (rule ws_normal_strip) (rule ws_normal_collapse_ws)
  then have c: "collapse_ws out = out" by (rule collapse_ws_normal)
  show ?thesis using ne s f a c by (simp add: sanitize_llm_response_def)
qed

text \<open>
  C5. The claim: every character of the sanitizer's result is in the allow-list, and the
  sanitizer is idempotent. The sanitizer returns a fixed bracketed string when the input
  is empty or nothing of it is left, and brackets and the underscore are outside the
  allow-list; a second run then removes them. A second run also removes an artifact
  phrase that the first run has put together by deleting a character inside it.
  What holds: the result is one of the two fixed strings or consists of allow-list
  characters only; and a result that is not one of the two fixed strings and contains no
  artifact phrase is returned unchanged by a second run.
\<close>

theorem sanitize_llm_response_allowed_or_sentinel:
  "(sanitize_llm_response raw \<in> sanitizer_sentinels \<or>
    list_all allowed_pattern (sanitize_llm_response raw)) \<and>
   (sanitize_llm_response raw \<notin> sanitizer_sentinels \<and>
    (\<forall>artifact \<in> set artifacts_to_remove. \<not> contains artifact (sanitize_llm_response raw)) \<longrightarrow>
    sanitize_llm_response (sanitize_llm_response raw) = sanitize_llm_response raw)"
proof (cases "sanitize_llm_response raw \<in> sanitizer_sentinels")
  case True then show ?thesis by simp
next
  case False
  then obtain t where t: "sanitize_llm_response raw = strip (collapse_ws (filter allowed_pattern t))"
    using sanitize_cases [of raw] by blast
  have ne: "sanitize_llm_response raw \<noteq> []"
    using False by (auto simp: sanitize_llm_response_def sanitizer_sentinels_def Let_def split: if_splits)
  show ?thesis
    using allowed_strip_collapse_filter [of t] sanitize_fixed [OF t ne] t by auto
qed

theorem sanitize_llm_response_allowed_or_sentinel_witness:
  "sanitize_llm_response (ascii ''Translation: Hello,  world!'') = ascii ''Hello, world!'' \<and>
   ascii ''Hello, world!'' \<notin> sanitizer_sentinels \<and>
   \<not> list_ex (\<lambda>artifact. contains artifact (ascii ''Hello, world!'')) artifacts_to_remove \<and>
   sanitize_llm_response (ascii ''Hello, world!'') = ascii ''Hello, world!''"
proof -
  have 1: "sanitize_llm_response (ascii ''Translation: Hello,  world!'') = ascii ''Hello, world!''"
    by code_simp
  have 2: "ascii ''Hello, world!'' \<notin> sanitizer_sentinels"
    by code_simp
  have 3: "\<forall>artifact \<in> set artifacts_to_remove. \<not> contains artifact (ascii ''Hello, world!'')"
    by code_simp
  have 4: "\<not> list_ex (\<lambda>artifact. contains artifact (ascii ''Hello, world!'')) artifacts_to_remove"
    using 3 by (simp add: list_ex_iff)
  show ?thesis
    using sanitize_llm_response_allowed_or_sentinel [of "ascii ''Translation: Hello,  world!''"] 1 2 3 4
    by simp
qed

theorem sanitize_llm_response_counterexample:
  "\<not> (list_all allowed_pattern (sanitize_llm_response [0x5E9, 0x5DC, 0x5D5, 0x5DD]) \<and>
      sanitize_llm_response (sanitize_llm_response [0x5E9, 0x5DC, 0x5D5, 0x5DD]) =
        sanitize_llm_response [0x5E9, 0x5DC, 0x5D5, 0x5DD])"
  by code_simp

text \<open>The second way to lose idempotence: the first run assembles an artifact phrase.\<close>

lemma sanitize_artifact_example:
  "sanitize_llm_response (ascii ''Translation'' @ [0x5D0] @ ascii '':'') = ascii ''Translation:'' \<and>
   sanitize_llm_response (ascii ''Translation:'') = ascii ''[SANITIZATION_FAILED]''"
  by code_simp


subsection \<open>The clean guarantee of the translation\<close>

lemma allowed_chars_ascii_all: "\<forall>c \<in> allowed_chars. c < 128"
  by code_simp

lemma allowed_chars_ascii: "c \<in> allowed_chars \<Longrightarrow> c < 128"
  using allowed_chars_ascii_all by blast

lemma contains_hebrew_characters_iff:
  "contains_hebrew_characters t \<longleftrightarrow>
   (\<exists>c \<in> set t. in_range 0x0590 0x05FF c \<or> in_range 0x0600 0x06FF c \<or>
                 in_range 0xFB1D 0xFB4F c \<or> c = 0x200F \<or> c = 0x202E)"
  by (auto simp: contains_hebrew_characters_def hebrew_patterns_def list_ex_iff)

lemma ascii_not_hebrew: "\<forall>c \<in> set t. c < 128 \<Longrightarrow> \<not> contains_hebrew_characters t"
  by (auto simp: contains_hebrew_characters_iff in_range_def)

lemma ascii_not_hebrew_text: "\<forall>c \<in> set t. c < 128 \<Longrightarrow> \<not> is_hebrew_text t"
  by (auto simp: is_hebrew_text_def hebrew_pattern_def list_ex_iff in_range_def)

lemma validation_loop_allowed:
  assumes "\<And>s. set s \<subseteq> allowed_chars \<Longrightarrow> nfkc s = s" and "set t \<subseteq> allowed_chars"
  shows "validation_loop nfkc (Suc n) t = (True, t)"
proof -
  have "\<not> contains_hebrew_characters t"
    using assms(2) allowed_chars_ascii by (intro ascii_not_hebrew) auto
  moreover have "filter (\<lambda>c. c \<notin> allowed_chars) t = []"
    using assms(2) by (auto simp: filter_empty_conv)
  moreover have "nfkc t = t" using assms by simp
  ultimately show ?thesis by simp
qed

lemma cleaned_allowed:
  "set (strip (collapse_ws (filter (\<lambda>c. c \<in> allowed_chars) t))) \<subseteq> allowed_chars"
proof -
  have "set (strip (collapse_ws (filter (\<lambda>c. c \<in> allowed_chars) t)))
        \<subseteq> insert 32 (set (filter (\<lambda>c. c \<in> allowed_chars) t))"
    using set_strip [of "collapse_ws (filter (\<lambda>c. c \<in> allowed_chars) t)"]
          set_collapse_ws [of "filter (\<lambda>c. c \<in> allowed_chars) t"] by blast
  moreover have "32 \<in> allowed_chars" by code_simp
  ultimately show ?thesis by auto
qed

lemma validation_loop_no_hebrew:
  assumes nf: "\<And>s. set s \<subseteq> allowed_chars \<Longrightarrow> nfkc s = s"
    and nh: "\<not> contains_hebrew_characters t"
  shows "\<exists>t'. validation_loop nfkc (Suc (Suc n)) t = (True, t') \<and> set t' \<subseteq> allowed_chars"
proof (cases "filter (\<lambda>c. c \<notin> allowed_chars) t = []")
  case True
  then have "set t \<subseteq> allowed_chars" by (auto simp: filter_empty_conv)
  then show ?thesis using validation_loop_allowed [OF nf] by blast
next
  case False
  then show ?thesis
    using nh validation_loop_allowed [OF nf cleaned_allowed, of n t] cleaned_allowed [of t]
    by simp
qed

lemma set_fold_filter:
  "set (fold (\<lambda>pattern t. filter (\<lambda>c. \<not> pattern c) t) ps t) = {c \<in> set t. \<forall>p \<in> set ps. \<not> p c}"
  by (induction ps arbitrary: t) auto

lemma set_str_of_nat: "set (str_of_nat n) \<subseteq> {48..57}"
proof (induction n rule: str_of_nat.induct)
  case (1 n)
  show ?case
  proof (cases "n < 10")
    case True
    then show ?thesis by (subst str_of_nat.simps) auto
  next
    case False
    have "48 + n mod 10 \<in> {48..57}" by (simp; arith)
    then show ?thesis using 1 False by (subst str_of_nat.simps) auto
  qed
qed

lemma of_char_less_256: "(of_char c :: nat) < 256"
proof -
  have "(of_char c :: nat) mod 256 = of_char c" by (rule of_char_mod_256)
  moreover have "(of_char c :: nat) mod 256 < 256" by simp
  ultimately show ?thesis by simp
qed

lemma contains_hebrew_characters_char:
  "contains_hebrew_characters t \<longleftrightarrow> (\<exists>c \<in> set t. hebrew_char c)"
  by (auto simp: contains_hebrew_characters_def hebrew_char_def list_ex_iff)

lemma hebrew_char_ge: "hebrew_char c \<Longrightarrow> 256 \<le> c"
  by (auto simp: hebrew_char_def hebrew_patterns_def in_range_def)

lemma hebrew_char_removed:
  "hebrew_char c \<Longrightarrow> \<exists>p \<in> set patterns_to_remove. p c"
  by (auto simp: hebrew_char_def hebrew_patterns_def patterns_to_remove_def)

lemma removed_clean:
  "\<forall>c \<in> set (fold (\<lambda>pattern t. filter (\<lambda>c. \<not> pattern c) t) patterns_to_remove t). \<not> hebrew_char c"
proof
  fix c assume "c \<in> set (fold (\<lambda>pattern t. filter (\<lambda>c. \<not> pattern c) t) patterns_to_remove t)"
  then have "\<forall>p \<in> set patterns_to_remove. \<not> p c" unfolding set_fold_filter by blast
  then show "\<not> hebrew_char c" using hebrew_char_removed by blast
qed

lemma below_256_clean: "\<forall>c \<in> set s. c < 256 \<Longrightarrow> \<not> contains_hebrew_characters s"
proof
  assume a: "\<forall>c \<in> set s. c < 256" and "contains_hebrew_characters s"
  then obtain c where "c \<in> set s" "hebrew_char c" unfolding contains_hebrew_characters_char by blast
  then show False using a hebrew_char_ge [of c] by auto
qed

lemma digits_clean: "\<not> contains_hebrew_characters (str_of_nat n)"
proof (rule below_256_clean)
  show "\<forall>c \<in> set (str_of_nat n). c < 256" using set_str_of_nat [of n] by fastforce
qed

lemma ascii_clean: "\<not> contains_hebrew_characters (ascii s)"
  by (rule below_256_clean) (auto simp: ascii_def of_char_less_256)

lemma contains_hebrew_characters_append:
  "contains_hebrew_characters (a @ b) \<longleftrightarrow> contains_hebrew_characters a \<or> contains_hebrew_characters b"
  by (auto simp: contains_hebrew_characters_char)

lemma stripped_clean:
  assumes "\<forall>c \<in> set f. \<not> hebrew_char c"
  shows "\<not> contains_hebrew_characters (strip (collapse_ws f))"
proof -
  have "set (strip (collapse_ws f)) \<subseteq> insert 32 (set f)"
    using set_strip [of "collapse_ws f"] set_collapse_ws [of f] by blast
  moreover have "\<not> hebrew_char 32" using hebrew_char_ge [of 32] by auto
  ultimately show ?thesis
    using assms unfolding contains_hebrew_characters_char by blast
qed

lemma force_remove_hebrew_clean: "\<not> contains_hebrew_characters (force_remove_hebrew t)"
proof -
  define g where "g = strip (collapse_ws (fold (\<lambda>pattern t. filter (\<lambda>c. \<not> pattern c) t) patterns_to_remove t))"
  have g: "\<not> contains_hebrew_characters g"
    unfolding g_def by (rule stripped_clean) (rule removed_clean)
  have "\<not> contains_hebrew_characters
          (ascii ''[TRANSLATION_CLEANED: '' @ str_of_nat (length t) @
           ascii '' chars -> '' @ str_of_nat (length g) @ ascii '' chars] '' @ g)"
    using g by (simp only: contains_hebrew_characters_append digits_clean ascii_clean simp_thms)
  then show ?thesis
    unfolding force_remove_hebrew_def Let_def g_def [symmetric]
    using g by (simp only: if_split simp_thms)
qed


lemma validation_loop_3:
  assumes nf: "\<And>s. set s \<subseteq> allowed_chars \<Longrightarrow> nfkc s = s"
  shows "\<exists>t'. validation_loop nfkc 3 t = (True, t') \<and> set t' \<subseteq> allowed_chars"
proof (cases "contains_hebrew_characters t")
  case True
  have "validation_loop nfkc (Suc (Suc (Suc 0))) t =
        validation_loop nfkc (Suc (Suc 0)) (force_remove_hebrew t)"
    using True by simp
  then show ?thesis
    using validation_loop_no_hebrew [OF nf force_remove_hebrew_clean, of 0 t]
    by (simp add: numeral_3_eq_3)
next
  case False
  then show ?thesis
    using validation_loop_no_hebrew [OF nf, of t "Suc 0"] by (simp add: numeral_3_eq_3)
qed

lemma final_validation_allowed:
  assumes nf: "\<And>s. set s \<subseteq> allowed_chars \<Longrightarrow> nfkc s = s"
  shows "set (final_validation nfkc t) \<subseteq> allowed_chars"
proof -
  obtain t' where "validation_loop nfkc 3 t = (True, t')" "set t' \<subseteq> allowed_chars"
    using validation_loop_3 [OF nf] by blast
  then show ?thesis by (simp add: final_validation_def)
qed

lemma translate_guaranteed_text:
  "hebrew_free_guaranteed (fst (translate_hebrew_to_english nfkc llm text)) = Some True \<Longrightarrow>
   \<exists>t. translated_text (fst (translate_hebrew_to_english nfkc llm text)) = final_validation nfkc t"
  by (auto simp: translate_hebrew_to_english_def Let_def split: if_splits sum.splits)

text \<open>
  C1. Whenever \<open>translate_hebrew_to_english\<close> returns a result with
  \<open>hebrew_free_guaranteed\<close> set to true, every character of \<open>translated_text\<close> is in the
  allow-list \<open>allowed_chars\<close> of the final validation, and the text has no character that
  \<open>_contains_hebrew_characters\<close> or \<open>_is_hebrew_text\<close> would detect. The one fact used
  about \<open>unicodedata.normalize('NFKC', _)\<close> is that it leaves a text of allow-list
  (ASCII) characters unchanged. The statement holds for every behaviour of the upstream
  service.
\<close>

theorem translate_clean_guarantee:
  assumes nf: "\<And>s. set s \<subseteq> allowed_chars \<Longrightarrow> nfkc s = s"
    and flag: "hebrew_free_guaranteed (fst (translate_hebrew_to_english nfkc llm text)) = Some True"
  shows "set (translated_text (fst (translate_hebrew_to_english nfkc llm text))) \<subseteq> allowed_chars \<and>
         \<not> contains_hebrew_characters (translated_text (fst (translate_hebrew_to_english nfkc llm text))) \<and>
         \<not> is_hebrew_text (translated_text (fst (translate_hebrew_to_english nfkc llm text)))"
proof -
  let ?out = "translated_text (fst (translate_hebrew_to_english nfkc llm text))"
  obtain t where "?out = final_validation nfkc t"
    using translate_guaranteed_text [OF flag] by blast
  then have sub: "set ?out \<subseteq> allowed_chars"
    using final_validation_allowed [OF nf] by simp
  then have "\<forall>c \<in> set ?out. c < 128" using allowed_chars_ascii by blast
  then show ?thesis using sub ascii_not_hebrew ascii_not_hebrew_text by blast
qed

theorem translate_clean_guarantee_witness:
  "hebrew_free_guaranteed (fst (translate_hebrew_to_english (\<lambda>s. s) example_llm shalom)) = Some True \<and>
   translated_text (fst (translate_hebrew_to_english (\<lambda>s. s) example_llm shalom)) =
     ascii ''Hello world, peace!'' \<and>
   set (ascii ''Hello world, peace!'') \<subseteq> allowed_chars \<and>
   \<not> contains_hebrew_characters (ascii ''Hello world, peace!'') \<and>
   \<not> is_hebrew_text (ascii ''Hello world, peace!'')"
proof -
  have flag: "hebrew_free_guaranteed (fst (translate_hebrew_to_english (\<lambda>s. s) example_llm shalom)) = Some True"
    by code_simp
  have out: "translated_text (fst (translate_hebrew_to_english (\<lambda>s. s) example_llm shalom)) =
     ascii ''Hello world, peace!''"
    by code_simp
  show ?thesis
    using translate_clean_guarantee [of "\<lambda>s. s" example_llm shalom, OF _ flag] flag out
    by simp
qed

subsection \<open>The Chunker\<close>

lemma strip_stripped: "stripped s \<Longrightarrow> strip s = s"
proof -
  assume a: "stripped s"
  then have 1: "dropWhile is_space s = s"
    by (simp add: stripped_def dropWhile_eq_self_iff)
  have "hd (rev s) = last s" using a by (simp add: stripped_def hd_rev)
  then have 2: "dropWhile is_space (rev s) = rev s"
    using a by (simp add: stripped_def dropWhile_eq_self_iff)
  show ?thesis by (simp add: strip_def 1 2)
qed




lemma strip_Nil: "strip [] = []"
  by (simp add: strip_def)



lemma stripped_join:
  "g \<noteq> [] \<Longrightarrow> \<forall>s \<in> set g. stripped s \<Longrightarrow> stripped (join sep g)"
proof (induction sep g rule: join.induct)
  case (1 sep) then show ?case by simp
next
  case (2 sep x) then show ?case by simp
next
  case (3 sep x y ys)
  then have j: "stripped (join sep (y # ys))" by simp
  have x: "stripped x" using 3 by simp
  show ?case using j x by (simp add: stripped_def)
qed


















text \<open>
  C3. The claim: every chunk has at most \<open>n\<close> characters unless it is a single
  oversized question. The packing loop compares \<open>len(current_chunk) + len(segment)\<close>
  with the bound and then joins the two with a separator of two characters, which the
  comparison leaves out (the translator's \<open>_chunk_hebrew_text\<close> adds the 2). Two segments
  of 20 characters each pass the test for the bound 40 and are joined into a chunk of 42
  characters that holds two questions.
\<close>

theorem chunk_text_intelligently_joined_oversize:
  "chunk_text_intelligently ascii_lower 40 three_questions =
     Inr [ascii ''1. What is alpha AB?'' @ newline2 @ ascii ''2. What is gamma CD?'',
          ascii ''3. What is delta EF?''] \<and>
   length (ascii ''1. What is alpha AB?'' @ newline2 @ ascii ''2. What is gamma CD?'') = 42"
  by code_simp

text \<open>
  The same at any bound: two stripped segments whose lengths add up to the bound, or to
  one less, are joined into a chunk longer than the bound.
\<close>

lemma pack_segments_joined:
  assumes "stripped a" "stripped b" "stripped c"
    and "length a + length b \<le> n" and "n < length a + length b + 2 + length c"
  shows "pack_segments n [a, b, c] = [a @ newline2 @ b, c]"
proof -
  have ab: "stripped (join newline2 [a, b])"
    using assms(1,2) by (intro stripped_join) auto
  then have s: "strip (a @ newline2 @ b) = a @ newline2 @ b"
    using strip_stripped by fastforce
  have ne: "a \<noteq> []" "c \<noteq> []" using assms(1,3) by (auto simp: stripped_def)
  have 1: "pack_step n ([], []) a = ([], a)" by (simp add: pack_step_def)
  have 2: "pack_step n ([], a) b = ([], a @ newline2 @ b)"
    using assms(4) ne by (simp add: pack_step_def)
  have 3: "pack_step n ([], a @ newline2 @ b) c = ([a @ newline2 @ b], c)"
    using assms(5) ne s by (simp add: pack_step_def newline2_def)
  show ?thesis
    using ne assms(3) by (simp add: pack_segments_def 1 2 3 strip_stripped)
qed

text \<open>
  When one segment alone is selected and the preprocessed text is longer than the bound,
  the chunks are the fixed-width slices of the whole preprocessed text, so they hold the
  pieces that the selection rejected as well.
\<close>

lemma chunk_text_intelligently_fixed_width_example:
  "select_segments ascii_lower (preprocess_text intro_and_question) =
     [ascii ''1. What is the OSI model?''] \<and>
   chunk_text_intelligently ascii_lower 20 intro_and_question =
     Inr [ascii ''Short intro'' @ [10] @ ascii ''1. What '', ascii ''is the OSI model?'']"
  by code_simp





subsection \<open>The dispatcher and the merge of the chunk results\<close>

text \<open>Three failed attempts exhaust the retries of \<open>_call_openai_api\<close>.\<close>

lemma call_attempts_exhausted:
  assumes "\<forall>a < analysis_max_retries. outcome a = ApiRaises \<or> outcome a = Unparseable"
  shows "call_attempts outcome [0..<analysis_max_retries] = None"
proof -
  have u: "[0..<analysis_max_retries] = [0, 1, 2]"
    by (simp add: analysis_max_retries_def upt_conv_Cons)
  have "outcome 0 = ApiRaises \<or> outcome 0 = Unparseable"
       "outcome 1 = ApiRaises \<or> outcome 1 = Unparseable"
       "outcome 2 = ApiRaises \<or> outcome 2 = Unparseable"
    using assms by (simp_all add: analysis_max_retries_def)
  then show ?thesis
    unfolding u by (auto simp: analysis_max_retries_def)
qed

lemma merge_question_mono: "set (fst st) \<subseteq> set (fst (merge_question lower i st x))"
  by (cases st) (auto simp: merge_question_def)

lemma merge_questions_mono: "set (fst st) \<subseteq> set (fst (foldl (merge_question lower i) st xs))"
proof (induction xs arbitrary: st)
  case Nil show ?case by simp
next
  case (Cons x xs)
  show ?case using merge_question_mono [of st lower i x] Cons [of "merge_question lower i st x"]
    by auto
qed

lemma merge_chunk_mono: "set (fst st) \<subseteq> set (fst (merge_chunk lower st r))"
proof (cases r)
  case (Pair i res)
  show ?thesis
  proof (cases res)
    case None then show ?thesis using Pair by (simp add: merge_chunk_def)
  next
    case (Some v)
    then show ?thesis using Pair merge_questions_mono [of st lower i]
      by (cases v) (simp_all add: merge_chunk_def)
  qed
qed

lemma merge_chunks_mono: "set (fst st) \<subseteq> set (fst (foldl (merge_chunk lower) st rs))"
proof (induction rs arbitrary: st)
  case Nil show ?case by simp
next
  case (Cons r rs)
  show ?case using merge_chunk_mono [of st lower r] Cons [of "merge_chunk lower st r"]
    by auto
qed

lemma merge_questions_accepts:
  "q \<in> set qs \<Longrightarrow> validate_question lower q \<Longrightarrow>
   \<exists>acc. accept_question i acc q \<in> set (fst (foldl (merge_question lower i) st qs))"
proof (induction qs arbitrary: st)
  case Nil then show ?case by simp
next
  case (Cons x xs)
  show ?case
  proof (cases "q = x")
    case True
    have "accept_question i (fst st) q \<in> set (fst (merge_question lower i st x))"
      using True Cons.prems(2) by (cases st) (simp add: merge_question_def)
    then have "accept_question i (fst st) q \<in>
               set (fst (foldl (merge_question lower i) (merge_question lower i st x) xs))"
      using merge_questions_mono by blast
    then show ?thesis by auto
  next
    case False
    then have "q \<in> set xs" using Cons.prems(1) by simp
    then show ?thesis using Cons.IH [OF _ Cons.prems(2)] by simp
  qed
qed

lemma merge_chunks_accepts:
  "(i, Some (Some qs)) \<in> set rs \<Longrightarrow> q \<in> set qs \<Longrightarrow> validate_question lower q \<Longrightarrow>
   \<exists>acc. accept_question i acc q \<in> set (fst (foldl (merge_chunk lower) st rs))"
proof (induction rs arbitrary: st)
  case Nil then show ?case by simp
next
  case (Cons r rs)
  show ?case
  proof (cases "r = (i, Some (Some qs))")
    case True
    obtain acc where "accept_question i acc q \<in> set (fst (merge_chunk lower st r))"
      using True merge_questions_accepts [OF Cons.prems(2,3), of i st]
      by (auto simp: merge_chunk_def)
    then have "accept_question i acc q \<in>
               set (fst (foldl (merge_chunk lower) (merge_chunk lower st r) rs))"
      using merge_chunks_mono by blast
    then show ?thesis by auto
  next
    case False
    then have "(i, Some (Some qs)) \<in> set rs" using Cons.prems(1) by simp
    then show ?thesis using Cons.IH [OF _ Cons.prems(2,3)] by simp
  qed
qed

lemma dispatch_indexed:
  assumes "i < length chunks"
  shows "(i, call_openai_api llm i) \<in>
         set (zip [0..<length (dispatch llm chunks)] (dispatch llm chunks))"
proof -
  have l: "length (dispatch llm chunks) = length chunks" by (simp add: dispatch_def)
  have "dispatch llm chunks ! i = call_openai_api llm i"
    using assms by (simp add: dispatch_def)
  then show ?thesis using assms l by (force simp: set_zip)
qed

text \<open>
  C7. When every attempt for chunk \<open>k\<close> raises or gives an unparseable reply,
  \<open>_call_openai_api\<close> returns \<open>None\<close> for that chunk instead of raising; the analysis
  still reports \<open>processing_success\<close>, and every question that the validator accepts
  from a chunk \<open>i\<close> whose call succeeded is in the merged result, with the identifier,
  source chunk and detection tag that the merge assigns.
\<close>

theorem failed_chunk_excluded:
  assumes chunks: "chunk_text_intelligently lower n text = Inr chunks"
    and failing: "\<forall>a < analysis_max_retries. llm k a = ApiRaises \<or> llm k a = Unparseable"
    and other: "i < length chunks" "call_openai_api llm i = Some (Some qs)"
    and q: "q \<in> set qs" "validate_question lower q"
  shows "call_openai_api llm k = None \<and>
         processing_success (analyze_text_with_llm lower n llm text) \<and>
         (\<exists>acc. accept_question i acc q \<in> set (questions (analyze_text_with_llm lower n llm text)))"
proof -
  have 1: "call_openai_api llm k = None"
    unfolding call_openai_api_def using failing by (rule call_attempts_exhausted)
  have 2: "processing_success (analyze_text_with_llm lower n llm text)"
    using chunks by (simp add: analyze_text_with_llm_def Let_def)
  have "(i, Some (Some qs)) \<in> set (zip [0..<length (dispatch llm chunks)] (dispatch llm chunks))"
    using dispatch_indexed [OF other(1), of llm] other(2) by simp
  then obtain acc where
    a: "accept_question i acc q \<in> set (fst (merge_results lower (dispatch llm chunks)))"
    unfolding merge_results_def using merge_chunks_accepts [OF _ q] by blast
  have "set (fst (merge_results lower (dispatch llm chunks))) \<subseteq>
        set (questions (analyze_text_with_llm lower n llm text))"
    using chunks by (simp add: analyze_text_with_llm_def Let_def)
  then show ?thesis using 1 2 a by blast
qed

theorem failed_chunk_excluded_witness:
  "chunk_text_intelligently ascii_lower 20 three_questions =
     Inr [ascii ''1. What is alpha AB?'', ascii ''2. What is gamma CD?'',
          ascii ''3. What is delta EF?''] \<and>
   example_api 1 0 = ApiRaises \<and> example_api 1 1 = ApiRaises \<and> example_api 1 2 = ApiRaises \<and>
   call_openai_api example_api 2 = Some (Some [example_question]) \<and>
   validate_question ascii_lower example_question \<and>
   call_openai_api example_api 1 = None \<and>
   processing_success (analyze_text_with_llm ascii_lower 20 example_api three_questions) \<and>
   (\<exists>acc. accept_question 2 acc example_question \<in>
           set (questions (analyze_text_with_llm ascii_lower 20 example_api three_questions)))"
proof -
  have c: "chunk_text_intelligently ascii_lower 20 three_questions =
     Inr [ascii ''1. What is alpha AB?'', ascii ''2. What is gamma CD?'',
          ascii ''3. What is delta EF?'']"
    by code_simp
  have f: "\<forall>a < analysis_max_retries. example_api 1 a = ApiRaises \<or> example_api 1 a = Unparseable"
    by (simp add: example_api_def)
  have o: "call_openai_api example_api 2 = Some (Some [example_question])"
    by code_simp
  have v: "validate_question ascii_lower example_question"
    by code_simp
  have i: "2 < length [ascii ''1. What is alpha AB?'', ascii ''2. What is gamma CD?'',
          ascii ''3. What is delta EF?'']" by simp
  show ?thesis
    using failed_chunk_excluded [OF c f i o _ v] c o v
    by (simp add: example_api_def)
qed


subsection \<open>The recovery of missing questions\<close>

text \<open>
  The merge tags every question it accepts with \<open>llm\<close>, whatever tag the upstream service
  gave it, so the questions tagged \<open>deterministic_recovery\<close> are those of the recovery.
\<close>

lemma recovered_tag_differs: "ascii ''llm'' \<noteq> ascii ''deterministic_recovery''"
  by code_simp

lemma merge_question_llm:
  "\<forall>q \<in> set (fst st). \<not> is_recovered q \<Longrightarrow>
   \<forall>q \<in> set (fst (merge_question lower i st x)). \<not> is_recovered q"
  using recovered_tag_differs
  by (cases st) (auto simp: merge_question_def accept_question_def is_recovered_def)

lemma merge_questions_llm:
  "\<forall>q \<in> set (fst st). \<not> is_recovered q \<Longrightarrow>
   \<forall>q \<in> set (fst (foldl (merge_question lower i) st xs)). \<not> is_recovered q"
proof (induction xs arbitrary: st)
  case Nil then show ?case by simp
next
  case (Cons x xs)
  show ?case using Cons.IH [OF merge_question_llm [OF Cons.prems]] by simp
qed

lemma merge_chunk_llm:
  "\<forall>q \<in> set (fst st). \<not> is_recovered q \<Longrightarrow>
   \<forall>q \<in> set (fst (merge_chunk lower st r)). \<not> is_recovered q"
  using merge_questions_llm [of st lower]
  by (cases r) (auto simp: merge_chunk_def split: option.splits)

lemma merge_chunks_llm:
  "\<forall>q \<in> set (fst st). \<not> is_recovered q \<Longrightarrow>
   \<forall>q \<in> set (fst (foldl (merge_chunk lower) st rs)). \<not> is_recovered q"
proof (induction rs arbitrary: st)
  case Nil then show ?case by simp
next
  case (Cons r rs)
  show ?case using Cons.IH [OF merge_chunk_llm [OF Cons.prems]] by simp
qed

lemma merge_results_llm: "filter is_recovered (fst (merge_results lower results)) = []"
  using merge_chunks_llm [of "([], 0)" lower "zip [0..<length results] results"]
  by (simp add: merge_results_def filter_empty_conv)

lemma recover_all_recovered:
  "filter is_recovered (recover_missing_questions lower det found) =
   recover_missing_questions lower det found"
  by (simp add: recover_missing_questions_def recovered_question_def is_recovered_def
      filter_id_conv)

text \<open>
  C6. The claim: the number of questions tagged \<open>deterministic_recovery\<close> is the number
  of baseline records whose number is not among the leading numbers of the accepted
  questions. The recovery runs only when fewer than 10 questions were accepted, and it
  skips a record whose stripped text has at most 20 characters: for the text
  \<open>1. Short?\<close> nothing is accepted, the one baseline record is missing and nothing is
  recovered. What holds: with fewer than 10 accepted questions the count is the number of
  missing baseline records whose stripped text is longer than 20 characters, and
  otherwise it is 0.
\<close>

theorem recovered_count:
  assumes "chunk_text_intelligently lower n text = Inr chunks"
  shows "length (filter is_recovered (questions (analyze_text_with_llm lower n llm text))) =
     (if length (fst (merge_results lower (dispatch llm chunks))) < 10
      then length (filter (\<lambda>det_q. det_number det_q \<notin>
                                     found_numbers (fst (merge_results lower (dispatch llm chunks))) \<and>
                                   length (strip (det_text det_q)) > 20)
                          (extract_numbered_questions_deterministic text))
      else 0)"
  using assms
  by (simp add: analyze_text_with_llm_def Let_def merge_results_llm recover_all_recovered)
     (simp add: recover_missing_questions_def)

theorem recovered_count_witness:
  "chunk_text_intelligently ascii_lower max_chunk_size two_long_questions =
     Inr [ascii ''1. What is a firewall used for?'' @ newline2 @
          ascii ''2. What does TLS encrypt on a link?''] \<and>
   fst (merge_results ascii_lower
          (dispatch failing_api [ascii ''1. What is a firewall used for?'' @ newline2 @
                                 ascii ''2. What does TLS encrypt on a link?''])) = [] \<and>
   length (filter is_recovered
     (questions (analyze_text_with_llm ascii_lower max_chunk_size failing_api two_long_questions))) = 2"
proof -
  have c: "chunk_text_intelligently ascii_lower max_chunk_size two_long_questions =
     Inr [ascii ''1. What is a firewall used for?'' @ newline2 @
          ascii ''2. What does TLS encrypt on a link?'']"
    by code_simp
  have m: "fst (merge_results ascii_lower
          (dispatch failing_api [ascii ''1. What is a firewall used for?'' @ newline2 @
                                 ascii ''2. What does TLS encrypt on a link?''])) = []"
    by code_simp
  have b: "length (filter (\<lambda>det_q. det_number det_q \<notin> found_numbers [] \<and>
                                   length (strip (det_text det_q)) > 20)
                          (extract_numbered_questions_deterministic two_long_questions)) = 2"
    by code_simp
  show ?thesis
    using recovered_count [OF c, of failing_api] c m b by simp
qed

theorem recovered_count_counterexample:
  "chunk_text_intelligently ascii_lower max_chunk_size short_question = Inr [] \<and>
   fst (merge_results ascii_lower (dispatch failing_api [])) = [] \<and>
   length (filter is_recovered
     (questions (analyze_text_with_llm ascii_lower max_chunk_size failing_api short_question))) = 0 \<and>
   length (filter (\<lambda>det_q. det_number det_q \<notin>
                     found_numbers (fst (merge_results ascii_lower (dispatch failing_api []))))
             (extract_numbered_questions_deterministic short_question)) = 1"
  by code_simp

end
